theory Spec2Isabelle
  imports Complex_Main "HOL-Library.Sublist"
begin

section \<open>Strings of the JavaScript runtime\<close>

text \<open>
  A JavaScript string is a sequence of UTF-16 code units. The templates of the three
  entry points contain text outside ASCII, and \<open>\s\<close> and \<open>trim()\<close> know white space
  outside ASCII, so a string is modelled as the list of its code units.
  \<open>asc\<close> turns an ASCII literal into its code units; text outside ASCII is written as
  the list of its code units.
\<close>

type_synonym jsstring = "nat list"

definition asc :: "string \<Rightarrow> jsstring" where
  "asc s = map of_char s"

text \<open>
  The characters matched by \<open>\s\<close> and removed by \<open>String.prototype.trim\<close>: TAB, LF, VT,
  FF, CR, SPACE, U+00A0, U+1680, U+2000 to U+200A, U+2028, U+2029, U+202F, U+205F,
  U+3000 and U+FEFF.
\<close>

definition is_space :: "nat \<Rightarrow> bool" where
  "is_space u \<longleftrightarrow>
     u = 9 \<or> u = 10 \<or> u = 11 \<or> u = 12 \<or> u = 13 \<or> u = 32 \<or> u = 160 \<or> u = 5760 \<or>
     (8192 \<le> u \<and> u \<le> 8202) \<or> u = 8232 \<or> u = 8233 \<or> u = 8239 \<or> u = 8287 \<or>
     u = 12288 \<or> u = 65279"

definition trim :: "jsstring \<Rightarrow> jsstring" where
  "trim s = rev (dropWhile is_space (rev (dropWhile is_space s)))"

text \<open>The decimal digits of a number, as a template literal prints a status code.\<close>

function show_nat :: "nat \<Rightarrow> jsstring" where
  "show_nat n = (if n < 10 then [48 + n] else show_nat (n div 10) @ [48 + n mod 10])"
  by pat_completeness auto
termination
  by (relation "measure id") auto

declare show_nat.simps [simp del]

text \<open>\<open>s.split(sep)\<close> for a separator of one character.\<close>

fun split_on :: "nat \<Rightarrow> jsstring \<Rightarrow> jsstring list" where
  "split_on sep [] = [[]]"
| "split_on sep (c # cs) =
     (if c = sep then [] # split_on sep cs
      else (case split_on sep cs of [] \<Rightarrow> [[c]] | p # ps \<Rightarrow> (c # p) # ps))"

text \<open>
  An optional string is a value that is a string or \<open>undefined\<close> (\<open>null\<close> for a missing
  header): \<open>truthy_str\<close> is its truth value in a condition, \<open>or_default\<close> is \<open>x || d\<close>,
  \<open>interpolate\<close> is \<open>${x}\<close> in a template literal, \<open>nth_or_undefined\<close> is \<open>xs[i]\<close>.
\<close>

definition truthy_str :: "jsstring option \<Rightarrow> bool" where
  "truthy_str x = (case x of None \<Rightarrow> False | Some s \<Rightarrow> s \<noteq> [])"

definition or_default :: "jsstring option \<Rightarrow> jsstring \<Rightarrow> jsstring" where
  "or_default x d = (case x of None \<Rightarrow> d | Some s \<Rightarrow> if s \<noteq> [] then s else d)"

definition interpolate :: "jsstring option \<Rightarrow> jsstring" where
  "interpolate x = (case x of None \<Rightarrow> asc ''undefined'' | Some s \<Rightarrow> s)"

definition nth_or_undefined :: "jsstring list \<Rightarrow> nat \<Rightarrow> jsstring option" where
  "nth_or_undefined xs i = (if i < length xs then Some (xs ! i) else None)"

section \<open>Values of a parsed JSON document, and reading them\<close>

text \<open>
  \<open>response.json()\<close> yields a JavaScript value. A number is a double: a rational, an
  infinity (the parse of \<open>1e999\<close>) or, after a conversion, \<open>NaN\<close>. An object is the list
  of its own properties.
\<close>

datatype jsnum = NaN | Finite rat | PosInfinity | NegInfinity

datatype jsval =
    JUndefined
  | JNull
  | JBool bool
  | JNum jsnum
  | JStr jsstring
  | JArr "jsval list"
  | JObj "(jsstring \<times> jsval) list"

fun truthy :: "jsval \<Rightarrow> bool" where
  "truthy JUndefined = False"
| "truthy JNull = False"
| "truthy (JBool b) = b"
| "truthy (JNum n) = (n \<noteq> NaN \<and> n \<noteq> Finite 0)"
| "truthy (JStr s) = (s \<noteq> [])"
| "truthy (JArr xs) = True"
| "truthy (JObj kvs) = True"

text \<open>
  The property keys the sources read: a name (\<open>.candidates\<close>, \<open>.content\<close>, \<open>.parts\<close>,
  \<open>.text\<close>, none of which a prototype defines), an index (\<open>[0]\<close>) and \<open>.length\<close>.
\<close>

datatype key = Named jsstring | Index nat | Length

fun own_name :: "key \<Rightarrow> jsstring" where
  "own_name (Named k) = k"
| "own_name (Index i) = show_nat i"
| "own_name Length = asc ''length''"

text \<open>
  What a \<open>try\<close> block can catch: an \<open>Error\<close> the source throws with its message, the
  \<open>TypeError\<close> of the engine for a property read from \<open>undefined\<close> or \<open>null\<close>, the
  \<open>TypeError\<close> of the engine for the call of something that is not a function, and the
  rejection of a promise of the platform (\<open>fetch\<close>, \<open>response.json()\<close>) with the message
  of its error.
\<close>

datatype thrown =
    Error jsstring
  | TypeError_read jsval key
  | TypeError_call jsval
  | Rejected jsstring

text \<open>\<open>v.k\<close> and \<open>v[i]\<close>: a read from \<open>undefined\<close> or \<open>null\<close> throws, a missing property is \<open>undefined\<close>.\<close>

fun get :: "jsval \<Rightarrow> key \<Rightarrow> thrown + jsval" where
  "get JUndefined k = Inl (TypeError_read JUndefined k)"
| "get JNull k = Inl (TypeError_read JNull k)"
| "get (JBool b) k = Inr JUndefined"
| "get (JNum n) k = Inr JUndefined"
| "get (JStr s) (Named k) = Inr JUndefined"
| "get (JStr s) (Index i) = Inr (if i < length s then JStr [s ! i] else JUndefined)"
| "get (JStr s) Length = Inr (JNum (Finite (of_nat (length s))))"
| "get (JArr xs) (Named k) = Inr JUndefined"
| "get (JArr xs) (Index i) = Inr (if i < length xs then xs ! i else JUndefined)"
| "get (JArr xs) Length = Inr (JNum (Finite (of_nat (length xs))))"
| "get (JObj kvs) k = Inr (case map_of kvs (own_name k) of None \<Rightarrow> JUndefined | Some v \<Rightarrow> v)"

text \<open>\<open>v?.k\<close>: \<open>undefined\<close> where \<open>v.k\<close> would throw.\<close>

definition get_opt :: "jsval \<Rightarrow> key \<Rightarrow> jsval" where
  "get_opt v k = (case get v k of Inl e \<Rightarrow> JUndefined | Inr w \<Rightarrow> w)"

text \<open>Sequencing of steps that may throw.\<close>

definition and_then :: "thrown + 'a \<Rightarrow> ('a \<Rightarrow> thrown + 'b) \<Rightarrow> thrown + 'b" where
  "and_then m f = (case m of Inl e \<Rightarrow> Inl e | Inr v \<Rightarrow> f v)"

text \<open>
  \<open>v.replace(...)\<close>, with the effect \<open>f\<close> of the replacement on a string: only a string
  has the method.
\<close>

fun call_replace :: "(jsstring \<Rightarrow> jsstring) \<Rightarrow> jsval \<Rightarrow> thrown + jsstring" where
  "call_replace f (JStr s) = Inr (f s)"
| "call_replace f JUndefined = Inl (TypeError_read JUndefined (Named (asc ''replace'')))"
| "call_replace f JNull = Inl (TypeError_read JNull (Named (asc ''replace'')))"
| "call_replace f v = Inl (TypeError_call v)"

text \<open>
  The engine, where the sources depend on it and do not determine it: the number a
  string, an array or an object converts to in \<open>x > 0\<close>, and the message text of the
  errors the engine raises itself.
\<close>

record engine =
  to_number :: "jsval \<Rightarrow> jsnum"
  engine_message :: "thrown \<Rightarrow> jsstring"

fun number_of :: "engine \<Rightarrow> jsval \<Rightarrow> jsnum" where
  "number_of eng JUndefined = NaN"
| "number_of eng JNull = Finite 0"
| "number_of eng (JBool b) = Finite (if b then 1 else 0)"
| "number_of eng (JNum n) = n"
| "number_of eng v = to_number eng v"

fun positive :: "jsnum \<Rightarrow> bool" where
  "positive (Finite q) = (0 < q)"
| "positive PosInfinity = True"
| "positive n = False"

definition gt_zero :: "engine \<Rightarrow> jsval \<Rightarrow> bool" where
  "gt_zero eng v = positive (number_of eng v)"

text \<open>\<open>error.message\<close>\<close>

fun message :: "engine \<Rightarrow> thrown \<Rightarrow> jsstring" where
  "message eng (Error m) = m"
| "message eng (Rejected m) = m"
| "message eng e = engine_message eng e"

section \<open>Requests, responses, configuration and the generation API\<close>

text \<open>
  The request a worker receives, with the \<open>pathname\<close> of \<open>new URL(request.url)\<close> and the
  result of \<open>request.headers.get('User-Agent')\<close>; and the request the Node server
  receives, with \<open>req.url\<close> and \<open>req.headers['user-agent']\<close>.
\<close>

record request =
  request_method :: jsstring
  request_pathname :: jsstring
  request_user_agent :: "jsstring option"

record node_request =
  req_method :: jsstring
  req_url :: jsstring
  req_user_agent :: "jsstring option"

text \<open>
  A response: its status, the headers the source sets, and its body (\<open>None\<close> for
  \<open>new Response(null, ...)\<close> and for \<open>res.end()\<close> without data).
\<close>

record response =
  status :: nat
  headers :: "(jsstring \<times> jsstring) list"
  body :: "jsstring option"

text \<open>The secrets and variables of a worker, each a string or \<open>undefined\<close>.\<close>

record env =
  GEMINI_API_KEY :: "jsstring option"
  GA_MEASUREMENT_ID :: "jsstring option"
  ADSENSE_CLIENT_ID :: "jsstring option"
  GOOGLE_ADSENSE_ID :: "jsstring option"
  GOOGLE_ANALYTICS_ID :: "jsstring option"

text \<open>
  The outbound call \<open>fetch(url, {method, headers, body: JSON.stringify(payload)})\<close>, and
  what comes back: the promise rejects, or there is a reply with its status, the
  outcome of \<open>response.text()\<close> (the text of the body, or a rejection with its message)
  and the outcome of \<open>response.json()\<close> (a value, or a rejection with its message). The network is a function from the call to what comes back; every entry
  point returns its response together with the list of the calls it made.
\<close>

record outbound =
  out_url :: jsstring
  out_method :: jsstring
  out_headers :: "(jsstring \<times> jsstring) list"
  out_payload :: jsval

record upstream =
  up_status :: nat
  up_text :: "jsstring + jsstring"
  up_json :: "jsstring + jsval"

datatype fetch_outcome = Failed jsstring | Reply upstream

type_synonym network = "outbound \<Rightarrow> fetch_outcome"

text \<open>\<open>response.ok\<close>: the status is in the range 200 to 299.\<close>

definition ok :: "upstream \<Rightarrow> bool" where
  "ok r \<longleftrightarrow> 200 \<le> up_status r \<and> up_status r \<le> 299"

definition api_url :: "jsstring \<Rightarrow> jsstring" where
  \<open>api_url key =
     asc ''https://generativelanguage.googleapis.com/v1beta/models/gemini-2.0-flash:generateContent?key='' @
     key\<close>

definition payload :: "jsstring \<Rightarrow> jsval" where
  "payload prompt =
     JObj [(asc ''contents'',
            JArr [JObj [(asc ''role'', JStr (asc ''user'')),
                        (asc ''parts'', JArr [JObj [(asc ''text'', JStr prompt)]])]])]"

definition post_json :: "jsstring \<Rightarrow> jsstring \<Rightarrow> outbound" where
  "post_json url prompt =
     \<lparr>out_url = url, out_method = asc ''POST'',
      out_headers = [(asc ''Content-Type'', asc ''application/json'')],
      out_payload = payload prompt\<rparr>"

definition text_html :: "(jsstring \<times> jsstring) list" where
  "text_html = [(asc ''Content-Type'', asc ''text/html; charset=utf-8'')]"

definition text_plain :: "(jsstring \<times> jsstring) list" where
  "text_plain = [(asc ''Content-Type'', asc ''text/plain; charset=utf-8'')]"

definition favicon :: jsstring where
  "favicon = asc ''/favicon.ico''"

section \<open>Content sanitizers\<close>

definition fence_open_nl :: jsstring where
  "fence_open_nl = asc ''```html\<newline>''"

definition nl_fence_close :: jsstring where
  "nl_fence_close = asc ''\<newline>```''"

definition fence_open :: jsstring where
  "fence_open = asc ''```html''"

definition fence_close :: jsstring where
  "fence_close = asc ''```''"

text \<open>
  \<open>s.replace(/^LIT/, '')\<close> and \<open>s.replace(/LIT$/, '')\<close> for a literal \<open>LIT\<close>: without the
  \<open>m\<close> flag \<open>^\<close> matches at the start of the input only and \<open>$\<close> at its end only.
\<close>

definition replace_leading :: "jsstring \<Rightarrow> jsstring \<Rightarrow> jsstring" where
  "replace_leading lit s = (if prefix lit s then drop (length lit) s else s)"

definition replace_trailing :: "jsstring \<Rightarrow> jsstring \<Rightarrow> jsstring" where
  "replace_trailing lit s = (if suffix lit s then take (length s - length lit) s else s)"

text \<open>
  index.js, line 107:
  \<^verbatim>\<open>htmlContent.replace(/^```html\n/, '').replace(/\n```$/, '')\<close>
\<close>

definition sanitize_rewriter :: "jsstring \<Rightarrow> jsstring" where
  "sanitize_rewriter s = replace_trailing nl_fence_close (replace_leading fence_open_nl s)"

text \<open>
  server.js, lines 103 and 199:
  \<^verbatim>\<open>htmlContent.replace(/^```html\s*|```$/g, '').trim()\<close>

  \<open>fence_match at_start r\<close> is the length of the match of \<open>/^```html\s*|```$/\<close> that
  begins where the rest \<open>r\<close> of the input begins, if there is one: the first alternative
  needs the start of the input and takes all the white space that follows the fence,
  the second one needs \<open>r\<close> to be the closing fence up to the end of the input.
  \<open>replace_fences\<close> is the replacement of every match by the empty string, scanning
  from left to right as the \<open>g\<close> flag does.
\<close>

definition fence_match :: "bool \<Rightarrow> jsstring \<Rightarrow> nat option" where
  "fence_match at_start r =
     (if at_start \<and> prefix fence_open r
      then Some (length fence_open + length (takeWhile is_space (drop (length fence_open) r)))
      else if r = fence_close then Some (length fence_close)
      else None)"

function replace_fences :: "bool \<Rightarrow> jsstring \<Rightarrow> jsstring" where
  "replace_fences at_start r =
     (case fence_match at_start r of
        Some n \<Rightarrow> replace_fences False (drop n r)
      | None \<Rightarrow> (case r of [] \<Rightarrow> [] | c # cs \<Rightarrow> c # replace_fences False cs))"
  by pat_completeness auto
termination
proof (relation "measure (\<lambda>(b, r). length r)")
  show "wf (measure (\<lambda>(b, r). length r))" by simp
next
  fix at_start :: bool and r :: jsstring and n :: nat
  assume "fence_match at_start r = Some n"
  then have "0 < n \<and> r \<noteq> []"
    by (auto simp: fence_match_def fence_open_def fence_close_def asc_def split: if_splits)
  then show "((False, drop n r), (at_start, r)) \<in> measure (\<lambda>(b, r). length r)"
    by (cases r) auto
next
  fix at_start :: bool and r :: jsstring and c :: nat and cs :: jsstring
  assume "r = c # cs"
  then show "((False, cs), (at_start, r)) \<in> measure (\<lambda>(b, r). length r)" by simp
qed

declare replace_fences.simps [simp del]

definition sanitize_prompted :: "jsstring \<Rightarrow> jsstring" where
  "sanitize_prompted s = trim (replace_fences True s)"

section \<open>The worker with HTMLRewriter (src/index.js)\<close>

subsection \<open>HeadInjector\<close>

text \<open>
  The element handed to a handler of HTMLRewriter records what \<open>element.append(content,
  {html: true})\<close> appended, in the order of the calls.
\<close>

record element =
  appended :: "jsstring list"

definition append_html :: "element \<Rightarrow> jsstring \<Rightarrow> element" where
  "append_html el content = el\<lparr>appended := appended el @ [content]\<rparr>"

definition ga_snippet :: "jsstring \<Rightarrow> jsstring" where
  \<open>ga_snippet measurement_id =
     asc ''\<newline>'' @
     asc ''        <!-- Google Analytics (injected by Cloudflare Worker) -->\<newline>'' @
     asc ''        <script async src="https://www.googletagmanager.com/gtag/js?id='' @
     measurement_id @
     asc ''"></script>\<newline>'' @
     asc ''        <script>\<newline>'' @
     asc ''          window.dataLayer = window.dataLayer || [];\<newline>'' @
     asc ''          function gtag(){dataLayer.push(arguments);}\<newline>'' @
     asc ''          gtag('js', new Date());\<newline>'' @
     asc ''          gtag('config', '' @
     [0x0027] @
     measurement_id @
     [0x0027] @
     asc '');\<newline>'' @
     asc ''        </script>\<newline>'' @
     asc ''      ''\<close>

definition ad_snippet :: "jsstring \<Rightarrow> jsstring" where
  \<open>ad_snippet client_id =
     asc ''\<newline>'' @
     asc ''        <!-- Google AdSense (injected by Cloudflare Worker) -->\<newline>'' @
     asc ''        <script async src="https://pagead2.googlesyndication.com/pagead/js/adsbygoogle.js?client='' @
     client_id @
     asc ''" crossorigin="anonymous"></script>\<newline>'' @
     asc ''      ''\<close>

definition HeadInjector_element :: "env \<Rightarrow> element \<Rightarrow> element" where
  "HeadInjector_element env el =
     (let el1 = (if truthy_str (GA_MEASUREMENT_ID env)
                 then append_html el (ga_snippet (interpolate (GA_MEASUREMENT_ID env)))
                 else el);
          el2 = (if truthy_str (ADSENSE_CLIENT_ID env)
                 then append_html el1 (ad_snippet (interpolate (ADSENSE_CLIENT_ID env)))
                 else el1)
      in el2)"

subsection \<open>HTMLRewriter\<close>

text \<open>
  HTMLRewriter belongs to the platform, not to the repository. Its tokenizer is a
  parameter: it cuts the document into the \<open>head\<close> elements that the selector of line
  120 matches, each with its text up to its end tag and the text of its end tag (empty
  where the element has none), and the text between them. \<open>transform\<close> runs the handler
  on every matched element and writes what it appended before the end tag.
\<close>

datatype segment = Chunk jsstring | Head_element jsstring jsstring

type_synonym tokenizer = "jsstring \<Rightarrow> segment list"

fun segment_text :: "segment \<Rightarrow> jsstring" where
  "segment_text (Chunk t) = t"
| "segment_text (Head_element inner end_tag) = inner @ end_tag"

fun rewrite_segment :: "(element \<Rightarrow> element) \<Rightarrow> segment \<Rightarrow> jsstring" where
  "rewrite_segment handler (Chunk t) = t"
| "rewrite_segment handler (Head_element inner end_tag) =
     inner @ concat (appended (handler \<lparr>appended = []\<rparr>)) @ end_tag"

definition transform :: "tokenizer \<Rightarrow> (element \<Rightarrow> element) \<Rightarrow> jsstring \<Rightarrow> jsstring" where
  "transform tok handler html = concat (map (rewrite_segment handler) (tok html))"

subsection \<open>fetch\<close>

definition prompt_rewriter :: "jsstring \<Rightarrow> jsstring \<Rightarrow> jsstring \<Rightarrow> jsstring" where
  \<open>prompt_rewriter method path userAgent =
     [0x4F60, 0x662F, 0x4E00, 0x4E2A] @
     asc '' HTTP server'' @
     [0xFF0C, 0x7528, 0x6237, 0x5F53, 0x524D, 0x5728, 0x4F7F, 0x7528] @
     asc '' '' @
     method @
     asc '' '' @
     [0x65B9, 0x6CD5, 0xFF0C, 0x8BF7, 0x6C42, 0x8DEF, 0x5F84, 0x662F] @
     asc '' '' @
     path @
     [0xFF0C, 0x7528, 0x6237] @
     asc '' User-Agent '' @
     [0x662F] @
     asc '' '' @
     userAgent @
     [0xFF0C, 0x8BF7, 0x4F60, 0x5BF9, 0x6B64, 0x8BF7, 0x6C42, 0x548C, 0x8DEF, 0x5F84] @
     [0x5199, 0x51FA, 0x5BF9, 0x5E94, 0x7684] @
     asc '' HTML '' @
     [0x6587, 0x6863, 0x3002] @
     asc ''HTML '' @
     [0x6587, 0x6863, 0x7684] @
     asc '' head '' @
     [0x6807, 0x7B7E, 0x4E2D, 0x5FC5, 0x987B, 0x5305, 0x542B, 0x4E00, 0x4E2A] @
     asc '' charset=utf-8 '' @
     [0x6807, 0x7B7E, 0xFF0C, 0x6837, 0x5F0F, 0x53EA, 0x80FD, 0x5199, 0x6210, 0x884C] @
     [0x5185, 0x6837, 0x5F0F, 0xFF0C, 0x5199, 0x5728, 0x6807, 0x7B7E, 0x7684] @
     asc '' style '' @
     [0x5C5E, 0x6027, 0x4E0A, 0xFF01, 0x9664, 0x4E86] @
     asc '' HTML '' @
     [0x5185, 0x5BB9, 0x5916, 0x4E0D, 0x8981, 0x8FD4, 0x56DE, 0x5176, 0x4ED6, 0x5185] @
     [0x5BB9, 0xFF01, 0x5E76, 0x4E14] @
     asc '' HTML '' @
     [0x5185, 0x6700, 0x5C11, 0x8981, 0x6709, 0x4E00, 0x4E2A, 0x8D85, 0x94FE, 0x63A5] @
     [0xFF0C, 0x8DEF, 0x5F84, 0x5FC5, 0x987B, 0x662F, 0x672C, 0x7AD9, 0x7684, 0x7EDD] @
     [0x5BF9, 0x8DEF, 0x5F84, 0xFF08, 0x4F8B, 0x5982] @
     asc '' /about '' @
     [0x6216] @
     asc '' /products'' @
     [0xFF09, 0x3002]\<close>

definition not_configured :: jsstring where
  \<open>not_configured =
     asc ''AI service is not configured. Administrator needs to set the GEMINI_API_KEY '' @
     asc ''secret.''\<close>

definition upstream_failed :: "nat \<Rightarrow> jsstring" where
  \<open>upstream_failed st =
     asc ''Failed to get a response from the AI model. Status: '' @
     show_nat st\<close>

definition unexpected_format :: jsstring where
  \<open>unexpected_format =
     asc ''Received an unexpected response format from the AI model.''\<close>

definition internal_error :: jsstring where
  \<open>internal_error =
     asc ''An internal error occurred while processing the request.''\<close>

text \<open>
  Lines 103 to 111. The result is the sanitized text of the first part of the first
  candidate, \<open>None\<close> where the condition of line 104 is false, or what a read threw.
\<close>

definition extract_rewriter :: "jsval \<Rightarrow> thrown + jsstring option" where
  "extract_rewriter result =
     and_then (get result (Named (asc ''candidates''))) (\<lambda>candidates.
     if \<not> truthy candidates then Inr None else
     and_then (get candidates (Index 0)) (\<lambda>candidate.
     and_then (get candidate (Named (asc ''content''))) (\<lambda>content.
     if \<not> truthy content then Inr None else
     and_then (get content (Named (asc ''parts''))) (\<lambda>parts.
     if \<not> truthy parts then Inr None else
     and_then (get parts (Index 0)) (\<lambda>part.
     and_then (get part (Named (asc ''text''))) (\<lambda>text.
     if \<not> truthy text then Inr None else
     and_then (call_replace sanitize_rewriter text) (\<lambda>htmlContent.
     Inr (Some htmlContent))))))))"

text \<open>
  The body of the \<open>try\<close> block after the call, lines 94 to 121. Line 95 reads the text
  of the reply before line 97 answers 502, so a rejection of that read is thrown.
\<close>

definition respond_rewriter :: "tokenizer \<Rightarrow> env \<Rightarrow> fetch_outcome \<Rightarrow> thrown + response" where
  "respond_rewriter tok env outcome =
     (case outcome of
        Failed m \<Rightarrow> Inl (Rejected m)
      | Reply aiResponse \<Rightarrow>
          if \<not> ok aiResponse
          then (case up_text aiResponse of
                  Inl m \<Rightarrow> Inl (Rejected m)
                | Inr errorBody \<Rightarrow>
                    Inr \<lparr>status = 502, headers = [],
                         body = Some (upstream_failed (up_status aiResponse))\<rparr>)
          else (case up_json aiResponse of
                  Inl m \<Rightarrow> Inl (Rejected m)
                | Inr result \<Rightarrow>
                    and_then (extract_rewriter result) (\<lambda>extracted.
                    case extracted of
                      None \<Rightarrow> Inr \<lparr>status = 500, headers = [], body = Some unexpected_format\<rparr>
                    | Some htmlContent \<Rightarrow>
                        Inr \<lparr>status = 200, headers = text_html,
                             body = Some (transform tok (HeadInjector_element env) htmlContent)\<rparr>)))"

definition call_rewriter :: "request \<Rightarrow> env \<Rightarrow> outbound" where
  "call_rewriter request env =
     post_json (api_url (interpolate (GEMINI_API_KEY env)))
       (prompt_rewriter (request_method request) (request_pathname request)
          (or_default (request_user_agent request) (asc ''unknown'')))"

text \<open>
  The handler, lines 52 to 145. The \<open>body\<close> member of the second argument of the
  \<open>Response\<close> of line 125 is not a member of the options of \<open>Response\<close>, so the page
  written there is not sent: the body is the first argument.
\<close>

definition fetch_rewriter ::
  "tokenizer \<Rightarrow> network \<Rightarrow> request \<Rightarrow> env \<Rightarrow> response \<times> outbound list" where
  "fetch_rewriter tok net request env =
     (if \<not> truthy_str (GEMINI_API_KEY env)
      then (\<lparr>status = 500, headers = text_plain, body = Some not_configured\<rparr>, [])
      else if request_pathname request = favicon
      then (\<lparr>status = 204, headers = [], body = None\<rparr>, [])
      else
        (case respond_rewriter tok env (net (call_rewriter request env)) of
           Inr r \<Rightarrow> (r, [call_rewriter request env])
         | Inl error \<Rightarrow>
             (\<lparr>status = 500, headers = text_html, body = Some internal_error\<rparr>,
              [call_rewriter request env])))"

section \<open>The worker with the snippets in the prompt (src/server.js, lines 1 to 108)\<close>

definition adSenseCode :: "jsstring \<Rightarrow> jsstring" where
  \<open>adSenseCode googleAdSensePublisherID =
     asc ''<script async src="https://pagead2.googlesyndication.com/pagead/js/adsbygoogle.js?client='' @
     googleAdSensePublisherID @
     asc ''" crossorigin="anonymous"></script>''\<close>

definition analyticsCode :: "jsstring \<Rightarrow> jsstring" where
  \<open>analyticsCode googleAnalyticsMeasurementID =
     asc ''<script async src="https://www.googletagmanager.com/gtag/js?id='' @
     googleAnalyticsMeasurementID @
     asc ''"></script><script>window.dataLayer = window.dataLayer || [];function '' @
     asc ''gtag(){dataLayer.push(arguments);}gtag('js', new Date());gtag('config', '' @
     [0x0027] @
     googleAnalyticsMeasurementID @
     [0x0027] @
     asc '');</script>''\<close>

definition default_adsense_id :: jsstring where
  \<open>default_adsense_id = asc ''ca-pub-XXXXXXXXXXXXXXXX''\<close>

definition default_analytics_id :: jsstring where
  \<open>default_analytics_id = asc ''G-XXXXXXXXXX''\<close>

definition prompt_template_worker ::
  "jsstring \<Rightarrow> jsstring \<Rightarrow> jsstring \<Rightarrow> jsstring \<Rightarrow> jsstring \<Rightarrow> jsstring" where
  \<open>prompt_template_worker method path userAgent ad_code analytics_code =
     [0x4F60, 0x662F, 0x4E00, 0x4E2A] @
     asc '' HTTP server '' @
     [0xFF0C, 0x7528, 0x6237, 0x5F53, 0x524D, 0x5728, 0x4F7F, 0x7528] @
     asc '' '' @
     method @
     asc '' '' @
     [0x65B9, 0x6CD5, 0xFF0C, 0x8BF7, 0x6C42, 0x8DEF, 0x5F84, 0x662F] @
     asc '' '' @
     path @
     asc '' '' @
     [0xFF0C, 0x7528, 0x6237] @
     asc ''userAgent'' @
     [0x662F] @
     userAgent @
     [0xFF0C, 0x8BF7, 0x4F60, 0x5BF9, 0x6B64, 0x8BF7, 0x6C42, 0x548C, 0x8DEF, 0x5F84] @
     [0x5199, 0x51FA, 0x5BF9, 0x5E94, 0x7684] @
     asc '' html '' @
     [0x6587, 0x6863, 0xFF0C] @
     asc ''HTML '' @
     [0x6587, 0x6863, 0x7684] @
     asc '' head '' @
     [0x6807, 0x7B7E, 0x4E2D, 0x5FC5, 0x987B, 0x5305, 0x542B, 0x4E00, 0x4E2A] @
     asc '' charset=utf-8 '' @
     [0x6807, 0x7B7E, 0xFF0C, 0x5E76, 0x4E14, 0xFF0C, 0x8BF7, 0x52A1, 0x5FC5, 0x5728] @
     asc '' head '' @
     [0x6807, 0x7B7E, 0x4E2D, 0x52A0, 0x5165] @
     asc '' Google AdSense '' @
     [0x5E7F, 0x544A, 0x4EE3, 0x7801] @
     asc '': '' @
     ad_code @
     asc '' '' @
     [0xFF0C, 0x4EE5, 0x53CA, 0x8FD9, 0x6BB5] @
     asc '' Google Analytics '' @
     [0x8DDF, 0x8E2A, 0x4EE3, 0x7801] @
     asc '': '' @
     analytics_code @
     asc '' '' @
     [0xFF0C, 0x6837, 0x5F0F, 0x53EA, 0x80FD, 0x5199, 0x6210, 0x884C, 0x5185, 0x6837] @
     [0x5F0F, 0xFF0C, 0x5199, 0x5728, 0x6807, 0x7B7E, 0x7684] @
     asc '' style '' @
     [0x5C5E, 0x6027, 0x4E0A, 0xFF01, 0x9664, 0x4E86] @
     asc '' html '' @
     [0x5185, 0x5BB9, 0x5916, 0x4E0D, 0x8981, 0x8FD4, 0x56DE, 0x5176, 0x4ED6, 0x5185] @
     [0x5BB9, 0xFF01, 0x5E76, 0x4E14] @
     asc '' html '' @
     [0x5185, 0x6700, 0x5C11, 0x8981, 0x6709, 0x4E00, 0x4E2A, 0x8D85, 0x94FE, 0x63A5] @
     [0xFF0C, 0x8DEF, 0x5F84, 0x5FC5, 0x987B, 0x662F, 0x672C, 0x7AD9, 0x7684, 0x7EDD] @
     [0x5BF9, 0x8DEF, 0x5F84, 0x3002]\<close>

definition prompt_worker :: "jsstring \<Rightarrow> jsstring \<Rightarrow> jsstring \<Rightarrow> env \<Rightarrow> jsstring" where
  "prompt_worker method path userAgent env =
     prompt_template_worker method path userAgent
       (adSenseCode (or_default (GOOGLE_ADSENSE_ID env) default_adsense_id))
       (analyticsCode (or_default (GOOGLE_ANALYTICS_ID env) default_analytics_id))"

definition key_not_configured :: jsstring where
  \<open>key_not_configured =
     asc ''GEMINI_API_KEY is not configured. Please set it in your Worker's settings.''\<close>

definition request_failed_worker :: "nat \<Rightarrow> jsstring \<Rightarrow> jsstring" where
  \<open>request_failed_worker st errorBody =
     asc ''Gemini API request failed with status '' @
     show_nat st @
     asc '': '' @
     errorBody\<close>

definition no_valid_content :: jsstring where
  \<open>no_valid_content =
     asc ''Failed to get valid content from the AI. Check Worker logs for details.''\<close>

definition worker_error_page :: "jsstring \<Rightarrow> jsstring" where
  \<open>worker_error_page msg =
     asc ''<html><head><meta charset="utf-8"></head><body style="font-family: sans-serif; '' @
     asc ''background-color: #fdd; color: #a00;"><div style="text-align: center; '' @
     asc ''padding: 50px;"><h1>500 - Worker Error</h1><p>'' @
     msg @
     asc ''</p></div></body></html>''\<close>

text \<open>Lines 101 to 107.\<close>

definition extract_worker :: "jsval \<Rightarrow> thrown + jsstring" where
  "extract_worker result =
     and_then (get result (Named (asc ''candidates''))) (\<lambda>candidates.
     if truthy candidates \<and>
        truthy (get_opt (get_opt (get_opt (get_opt (get_opt candidates (Index 0))
                  (Named (asc ''content''))) (Named (asc ''parts''))) (Index 0))
                  (Named (asc ''text'')))
     then
       and_then (get candidates (Index 0)) (\<lambda>candidate.
       and_then (get candidate (Named (asc ''content''))) (\<lambda>content.
       and_then (get content (Named (asc ''parts''))) (\<lambda>parts.
       and_then (get parts (Index 0)) (\<lambda>part.
       and_then (get part (Named (asc ''text''))) (\<lambda>htmlContent.
       call_replace sanitize_prompted htmlContent)))))
     else Inl (Error no_valid_content))"

definition call_worker :: "request \<Rightarrow> env \<Rightarrow> outbound" where
  "call_worker request env =
     post_json (api_url (interpolate (GEMINI_API_KEY env)))
       (prompt_worker (request_method request) (request_pathname request)
          (or_default (request_user_agent request) (asc ''Unknown'')) env)"

text \<open>\<open>generateHtmlWithAI\<close>, lines 54 to 108: the HTML, or what it threw, and the calls made.\<close>

definition generateHtmlWithAI_worker ::
  "network \<Rightarrow> request \<Rightarrow> env \<Rightarrow> (thrown + jsstring) \<times> outbound list" where
  "generateHtmlWithAI_worker net request env =
     (if \<not> truthy_str (GEMINI_API_KEY env) then (Inl (Error key_not_configured), [])
      else
        ((case net (call_worker request env) of
            Failed m \<Rightarrow> Inl (Rejected m)
          | Reply response \<Rightarrow>
              if \<not> ok response
              then (case up_text response of
                      Inl m \<Rightarrow> Inl (Rejected m)
                    | Inr errorBody \<Rightarrow>
                        Inl (Error (request_failed_worker (up_status response) errorBody)))
              else (case up_json response of
                      Inl m \<Rightarrow> Inl (Rejected m)
                    | Inr result \<Rightarrow> extract_worker result)),
         [call_worker request env]))"

text \<open>The handler, lines 10 to 43.\<close>

definition fetch_worker ::
  "engine \<Rightarrow> network \<Rightarrow> request \<Rightarrow> env \<Rightarrow> response \<times> outbound list" where
  "fetch_worker eng net request env =
     (if request_pathname request = favicon
      then (\<lparr>status = 204, headers = [], body = None\<rparr>, [])
      else
        (case generateHtmlWithAI_worker net request env of
           (Inr htmlContent, calls) \<Rightarrow>
             (\<lparr>status = 200, headers = text_html, body = Some htmlContent\<rparr>, calls)
         | (Inl error, calls) \<Rightarrow>
             (\<lparr>status = 500, headers = text_html,
               body = Some (worker_error_page (message eng error))\<rparr>, calls)))"

section \<open>The Node server (src/server.js, lines 109 to 250)\<close>

subsection \<open>getApiKey\<close>

definition is_key_equals :: "jsstring \<Rightarrow> bool" where
  "is_key_equals arg \<longleftrightarrow> prefix (asc ''--apiKey='') arg \<or> prefix (asc ''--key='') arg"

definition is_key_flag :: "jsstring \<Rightarrow> bool" where
  "is_key_flag arg \<longleftrightarrow> arg = asc ''--apiKey'' \<or> arg = asc ''--key''"

text \<open>\<open>args.findIndex(p)\<close>, with \<open>None\<close> for -1.\<close>

fun findIndex :: "('a \<Rightarrow> bool) \<Rightarrow> 'a list \<Rightarrow> nat option" where
  "findIndex p [] = None"
| "findIndex p (x # xs) =
     (if p x then Some 0 else (case findIndex p xs of None \<Rightarrow> None | Some i \<Rightarrow> Some (Suc i)))"

text \<open>
  \<open>args\<close> is \<open>process.argv.slice(2)\<close> and \<open>env_key\<close> is \<open>process.env.GEMINI_API_KEY\<close>;
  the result is a string, or \<open>undefined\<close> where the index of line 125 is out of range.
\<close>

definition getApiKey :: "jsstring list \<Rightarrow> jsstring option \<Rightarrow> jsstring option" where
  "getApiKey args env_key =
     (let keyArgEquals = find is_key_equals args in
      if truthy_str keyArgEquals
      then nth_or_undefined (split_on 61 (interpolate keyArgEquals)) 1
      else
        (case findIndex is_key_flag args of
           Some keyArgIndex \<Rightarrow>
             if truthy_str (nth_or_undefined args (keyArgIndex + 1))
             then nth_or_undefined args (keyArgIndex + 1)
             else Some (or_default env_key [])
         | None \<Rightarrow> Some (or_default env_key [])))"

subsection \<open>generateHtmlWithAI and the server\<close>

definition node_adsense_id :: jsstring where
  \<open>node_adsense_id = asc ''ca-pub-XXXXXXXXXXXXXXXX''\<close>

definition prompt_template_node ::
  "jsstring \<Rightarrow> jsstring \<Rightarrow> jsstring \<Rightarrow> jsstring \<Rightarrow> jsstring" where
  \<open>prompt_template_node method url userAgent ad_code =
     [0x4F60, 0x662F, 0x4E00, 0x4E2A] @
     asc '' HTTP server '' @
     [0xFF0C, 0x7528, 0x6237, 0x5F53, 0x524D, 0x5728, 0x4F7F, 0x7528] @
     asc '' '' @
     method @
     asc '' '' @
     [0x65B9, 0x6CD5, 0xFF0C, 0x8BF7, 0x6C42, 0x8DEF, 0x5F84, 0x662F] @
     asc '' '' @
     url @
     asc '' '' @
     [0xFF0C, 0x7528, 0x6237] @
     asc ''userAgent'' @
     [0x662F] @
     userAgent @
     [0xFF0C, 0x8BF7, 0x4F60, 0x5BF9, 0x6B64, 0x8BF7, 0x6C42, 0x548C, 0x8DEF, 0x5F84] @
     [0x5199, 0x51FA, 0x5BF9, 0x5E94, 0x7684] @
     asc '' html '' @
     [0x6587, 0x6863, 0xFF0C] @
     asc ''HTML '' @
     [0x6587, 0x6863, 0x7684] @
     asc '' head '' @
     [0x6807, 0x7B7E, 0x4E2D, 0x5FC5, 0x987B, 0x5305, 0x542B, 0x4E00, 0x4E2A] @
     asc '' charset=utf-8 '' @
     [0x6807, 0x7B7E, 0xFF0C, 0x5E76, 0x4E14, 0xFF0C, 0x8BF7, 0x52A1, 0x5FC5, 0x5728] @
     asc '' head '' @
     [0x6807, 0x7B7E, 0x4E2D, 0x52A0, 0x5165, 0x8FD9, 0x6BB5] @
     asc '' Google AdSense '' @
     [0x5E7F, 0x544A, 0x4EE3, 0x7801] @
     asc '': '' @
     ad_code @
     asc '' '' @
     [0xFF0C, 0x6837, 0x5F0F, 0x53EA, 0x80FD, 0x5199, 0x6210, 0x884C, 0x5185, 0x6837] @
     [0x5F0F, 0xFF0C, 0x5199, 0x5728, 0x6807, 0x7B7E, 0x7684] @
     asc '' style '' @
     [0x5C5E, 0x6027, 0x4E0A, 0xFF01, 0x9664, 0x4E86] @
     asc '' html '' @
     [0x5185, 0x5BB9, 0x5916, 0x4E0D, 0x8981, 0x8FD4, 0x56DE, 0x5176, 0x4ED6, 0x5185] @
     [0x5BB9, 0xFF01, 0x5E76, 0x4E14] @
     asc '' html '' @
     [0x5185, 0x6700, 0x5C11, 0x8981, 0x6709, 0x4E00, 0x4E2A, 0x8D85, 0x94FE, 0x63A5] @
     [0xFF0C, 0x8DEF, 0x5F84, 0x5FC5, 0x987B, 0x662F, 0x672C, 0x7AD9, 0x7684, 0x7EDD] @
     [0x5BF9, 0x8DEF, 0x5F84, 0x3002]\<close>

definition prompt_node :: "jsstring \<Rightarrow> jsstring \<Rightarrow> jsstring \<Rightarrow> jsstring" where
  "prompt_node method url userAgent =
     prompt_template_node method url userAgent (adSenseCode node_adsense_id)"

definition request_failed_node :: "nat \<Rightarrow> jsstring \<Rightarrow> jsstring" where
  \<open>request_failed_node st errorBody =
     asc ''API request failed with status '' @
     show_nat st @
     asc '': '' @
     errorBody\<close>

definition fallback_page :: jsstring where
  \<open>fallback_page =
     asc ''<html><head><meta charset="utf-8"></head><body style="font-family: sans-serif; '' @
     asc ''background-color: #f0f0f0; color: #333;"><div style="text-align: center; '' @
     asc ''padding: 50px;"><h1>'' @
     [0x9519, 0x8BEF] @
     asc ''</h1><p>'' @
     [0x672A, 0x80FD, 0x4ECE] @
     asc '' AI '' @
     [0x83B7, 0x53D6, 0x6709, 0x6548, 0x5185, 0x5BB9, 0x3002] @
     asc ''</p><p>'' @
     [0x8BF7, 0x68C0, 0x67E5, 0x670D, 0x52A1, 0x5668, 0x65E5, 0x5FD7, 0x3002] @
     asc ''</p><a href="/">'' @
     [0x8FD4, 0x56DE, 0x9996, 0x9875] @
     asc ''</a></div></body></html>''\<close>

definition node_error_page :: "jsstring \<Rightarrow> jsstring" where
  \<open>node_error_page msg =
     asc ''<html><head><meta charset="utf-8"></head><body style="font-family: sans-serif; '' @
     asc ''background-color: #fdd; color: #a00;"><div style="text-align: center; '' @
     asc ''padding: 50px;"><h1>500 - '' @
     [0x670D, 0x52A1, 0x5668, 0x5185, 0x90E8, 0x9519, 0x8BEF] @
     asc ''</h1><p>'' @
     [0x8C03, 0x7528] @
     asc ''AI'' @
     [0x670D, 0x52A1, 0x65F6, 0x53D1, 0x751F, 0x9519, 0x8BEF, 0x3002] @
     asc ''</p><p>'' @
     msg @
     asc ''</p><a href="/">'' @
     [0x8FD4, 0x56DE, 0x9996, 0x9875] @
     asc ''</a></div></body></html>''\<close>

text \<open>Lines 192 to 205.\<close>

definition extract_node :: "engine \<Rightarrow> jsval \<Rightarrow> thrown + jsstring" where
  "extract_node eng result =
     and_then (get result (Named (asc ''candidates''))) (\<lambda>candidates.
     if \<not> truthy candidates then Inr fallback_page else
     and_then (get candidates Length) (\<lambda>n.
     if \<not> gt_zero eng n then Inr fallback_page else
     and_then (get candidates (Index 0)) (\<lambda>candidate.
     and_then (get candidate (Named (asc ''content''))) (\<lambda>content.
     if \<not> truthy content then Inr fallback_page else
     and_then (get content (Named (asc ''parts''))) (\<lambda>parts.
     if \<not> truthy parts then Inr fallback_page else
     and_then (get parts Length) (\<lambda>m.
     if \<not> gt_zero eng m then Inr fallback_page else
     and_then (get parts (Index 0)) (\<lambda>part.
     and_then (get part (Named (asc ''text''))) (\<lambda>htmlContent.
     call_replace sanitize_prompted htmlContent))))))))"

definition call_node :: "jsstring option \<Rightarrow> node_request \<Rightarrow> outbound" where
  "call_node apiKey req =
     post_json (api_url (interpolate apiKey))
       (prompt_node (req_method req) (req_url req)
          (or_default (req_user_agent req) (asc ''Unknown'')))"

text \<open>
  \<open>generateHtmlWithAI\<close>, lines 149 to 210, with the \<open>apiKey\<close> that \<open>getApiKey\<close> returned
  when the server started. Where the key is missing, line 166 logs a warning and the
  function goes on. The function catches what its \<open>try\<close> block throws and returns a
  page, so it always returns a string.
\<close>

definition generateHtmlWithAI_node ::
  "engine \<Rightarrow> network \<Rightarrow> jsstring option \<Rightarrow> node_request \<Rightarrow> jsstring \<times> outbound list" where
  "generateHtmlWithAI_node eng net apiKey req =
     ((case (case net (call_node apiKey req) of
               Failed m \<Rightarrow> Inl (Rejected m)
             | Reply response \<Rightarrow>
                 if \<not> ok response
                 then (case up_text response of
                         Inl m \<Rightarrow> Inl (Rejected m)
                       | Inr errorBody \<Rightarrow>
                           Inl (Error (request_failed_node (up_status response) errorBody)))
                 else (case up_json response of
                         Inl m \<Rightarrow> Inl (Rejected m)
                       | Inr result \<Rightarrow> extract_node eng result)) of
         Inr htmlContent \<Rightarrow> htmlContent
       | Inl error \<Rightarrow> node_error_page (message eng error)),
      [call_node apiKey req])"

text \<open>
  The server, lines 213 to 238. \<open>generateHtmlWithAI\<close> returns a string whatever happens,
  so the \<open>catch\<close> of line 233 has nothing to catch.
\<close>

definition server ::
  "engine \<Rightarrow> network \<Rightarrow> jsstring option \<Rightarrow> node_request \<Rightarrow> response \<times> outbound list" where
  "server eng net apiKey req =
     (if req_url req = favicon
      then (\<lparr>status = 204, headers = [(asc ''Content-Type'', asc ''image/x-icon'')],
             body = None\<rparr>, [])
      else
        (case generateHtmlWithAI_node eng net apiKey req of
           (htmlContent, calls) \<Rightarrow>
             (\<lparr>status = 200, headers = text_html, body = Some htmlContent\<rparr>, calls)))"

section \<open>Notions used to state the properties\<close>

text \<open>
  The number of places of a text at which a pattern begins, and the beginnings of the
  two external script references: that of Google Analytics and that of AdSense.
\<close>

fun occurrences :: "jsstring \<Rightarrow> jsstring \<Rightarrow> nat" where
  "occurrences pat [] = (if pat = [] then 1 else 0)"
| "occurrences pat (c # cs) = (if prefix pat (c # cs) then 1 else 0) + occurrences pat cs"

text \<open>
  The path of a request target such as \<open>req.url\<close>: what stands before its first \<open>?\<close>
  (code unit 63).
\<close>

definition url_path :: "jsstring \<Rightarrow> jsstring" where
  "url_path url = takeWhile (\<lambda>c. c \<noteq> 63) url"

definition ga_reference :: jsstring where
  \<open>ga_reference = asc ''<script async src="https://www.googletagmanager.com/gtag/js?id=''\<close>

definition ad_reference :: jsstring where
  \<open>ad_reference =
     asc ''<script async src="https://pagead2.googlesyndication.com/pagead/js/adsbygoogle.js?client=''\<close>

section \<open>Example inputs\<close>

text \<open>
  The request of the end-to-end scenarios (\<open>GET /about\<close> from \<open>TestAgent/1.0\<close>), a
  request for the favicon, configurations without and with a credential and with the
  identifiers \<open>G-TEST\<close> and \<open>ca-pub-TEST\<close>, replies of the generation API (the last
  one with the document of the scenario between fences; the text of its body is left
  empty, only its parsed value is read), and a tokenizer that finds the \<open>head\<close> element
  of that document.
\<close>

definition about_request :: request where
  "about_request =
     \<lparr>request_method = asc ''GET'', request_pathname = asc ''/about'',
      request_user_agent = Some (asc ''TestAgent/1.0'')\<rparr>"

definition favicon_request :: request where
  "favicon_request =
     \<lparr>request_method = asc ''GET'', request_pathname = asc ''/favicon.ico'',
      request_user_agent = None\<rparr>"

definition about_node_request :: node_request where
  "about_node_request =
     \<lparr>req_method = asc ''GET'', req_url = asc ''/about'',
      req_user_agent = Some (asc ''TestAgent/1.0'')\<rparr>"

definition favicon_node_request :: node_request where
  "favicon_node_request =
     \<lparr>req_method = asc ''GET'', req_url = asc ''/favicon.ico'', req_user_agent = None\<rparr>"

definition empty_env :: env where
  "empty_env =
     \<lparr>GEMINI_API_KEY = None, GA_MEASUREMENT_ID = None, ADSENSE_CLIENT_ID = None,
      GOOGLE_ADSENSE_ID = None, GOOGLE_ANALYTICS_ID = None\<rparr>"

definition empty_key_env :: env where
  "empty_key_env = empty_env\<lparr>GEMINI_API_KEY := Some []\<rparr>"

definition keyed_env :: env where
  "keyed_env = empty_env\<lparr>GEMINI_API_KEY := Some (asc ''KEY'')\<rparr>"

definition tagged_env :: env where
  "tagged_env =
     keyed_env\<lparr>GA_MEASUREMENT_ID := Some (asc ''G-TEST''),
               ADSENSE_CLIENT_ID := Some (asc ''ca-pub-TEST'')\<rparr>"

definition plain_engine :: engine where
  "plain_engine = \<lparr>to_number = (\<lambda>v. NaN), engine_message = (\<lambda>e. asc ''TypeError'')\<rparr>"

definition always :: "fetch_outcome \<Rightarrow> network" where
  "always outcome = (\<lambda>call. outcome)"

definition unavailable :: upstream where
  "unavailable =
     \<lparr>up_status = 503, up_text = Inr (asc ''Service Unavailable''),
      up_json = Inl (asc ''Unexpected token S'')\<rparr>"

definition no_candidates :: upstream where
  "no_candidates = \<lparr>up_status = 200, up_text = Inr (asc ''{}''), up_json = Inr (JObj [])\<rparr>"

definition empty_candidates :: upstream where
  \<open>empty_candidates =
     \<lparr>up_status = 200, up_text = Inr (asc ''{"candidates":[]}''),
      up_json = Inr (JObj [(asc ''candidates'', JArr [])])\<rparr>\<close>

definition example_document :: jsstring where
  \<open>example_document =
     asc ''<html><head><meta charset="utf-8"></head><body><a href="/">Home</a></body></html>''\<close>

definition one_head :: tokenizer where
  \<open>one_head html =
     (if html = example_document
      then [Chunk (asc ''<html>''),
            Head_element (asc ''<head><meta charset="utf-8">'') (asc ''</head>''),
            Chunk (asc ''<body><a href="/">Home</a></body></html>'')]
      else [Chunk html])\<close>

definition fenced_envelope :: jsval where
  \<open>fenced_envelope =
     JObj [(asc ''candidates'',
       JArr [JObj [(asc ''content'',
         JObj [(asc ''parts'',
           JArr [JObj [(asc ''text'',
             JStr (asc ''```html\<newline>'' @ example_document @ asc ''\<newline>```''))]])])]])]\<close>

definition fenced_document :: upstream where
  "fenced_document = \<lparr>up_status = 200, up_text = Inr [], up_json = Inr fenced_envelope\<rparr>"

text \<open>
  A request of the Node server for the favicon with a query string; a reply that is
  not a success and whose body cannot be read; a document whose \<open>head\<close> element holds
  a Google Analytics script reference of its own, with a tokenizer that finds that
  element; and a configuration whose Analytics identifier is the beginning of a script
  reference.
\<close>

definition favicon_query_node_request :: node_request where
  "favicon_query_node_request =
     \<lparr>req_method = asc ''GET'', req_url = asc ''/favicon.ico?x=1'', req_user_agent = None\<rparr>"

definition unreadable :: upstream where
  "unreadable =
     \<lparr>up_status = 503, up_text = Inl (asc ''terminated''),
      up_json = Inl (asc ''terminated'')\<rparr>"

definition tracked_document :: jsstring where
  \<open>tracked_document =
     asc ''<html><head><script async src="https://www.googletagmanager.com/gtag/js?id=G-OWN"></script></head><body><a href="/">Home</a></body></html>''\<close>

definition tracked_head :: tokenizer where
  \<open>tracked_head html =
     (if html = tracked_document
      then [Chunk (asc ''<html>''),
            Head_element
              (asc ''<head><script async src="https://www.googletagmanager.com/gtag/js?id=G-OWN"></script>'')
              (asc ''</head>''),
            Chunk (asc ''<body><a href="/">Home</a></body></html>'')]
      else [Chunk html])\<close>

definition reference_id_env :: env where
  "reference_id_env = tagged_env\<lparr>GA_MEASUREMENT_ID := Some ga_reference\<rparr>"

section \<open>The sanitizers\<close>

lemma length_fence_open: "length fence_open = 7"
  by (simp add: fence_open_def asc_def)

lemma length_fence_close: "length fence_close = 3"
  by (simp add: fence_close_def asc_def)

lemma length_fence_open_nl: "length fence_open_nl = 8"
  by (simp add: fence_open_nl_def asc_def)

lemma length_nl_fence_close: "length nl_fence_close = 4"
  by (simp add: nl_fence_close_def asc_def)

lemma replace_trailing_Cons:
  "c # cs \<noteq> lit \<Longrightarrow> replace_trailing lit (c # cs) = c # replace_trailing lit cs"
  by (auto simp: replace_trailing_def suffix_Cons Suc_diff_le dest: suffix_length_le)

lemma length_replace_trailing_le: "length (replace_trailing lit s) \<le> length s"
  by (simp add: replace_trailing_def)

text \<open>
  The scan of \<open>/^```html\s*|```$/g\<close> in closed form: past the start of the input only the
  closing fence at the very end can match; at the start the opening fence goes with
  the white space after it, and the closing fence is looked for in what is left.
\<close>

lemma replace_fences_False: "replace_fences False r = replace_trailing fence_close r"
proof (induction r)
  case Nil
  show ?case
    by (subst replace_fences.simps)
       (simp add: fence_match_def replace_trailing_def fence_close_def asc_def)
next
  case (Cons c cs)
  show ?case
  proof (cases "c # cs = fence_close")
    case True
    have "replace_fences False [] = []"
      by (subst replace_fences.simps) (simp add: fence_match_def fence_close_def asc_def)
    with True show ?thesis
      by (subst replace_fences.simps) (simp add: fence_match_def replace_trailing_def)
  next
    case False
    with Cons show ?thesis
      by (subst replace_fences.simps) (simp add: fence_match_def replace_trailing_Cons)
  qed
qed

lemma replace_fences_True:
  "replace_fences True r =
     (if prefix fence_open r
      then replace_trailing fence_close (dropWhile is_space (drop (length fence_open) r))
      else replace_trailing fence_close r)"
proof (cases "prefix fence_open r")
  case True
  have "drop (length fence_open + length (takeWhile is_space (drop (length fence_open) r))) r
        = dropWhile is_space (drop (length fence_open) r)"
    by (metis add.commute drop_drop dropWhile_eq_drop)
  with True show ?thesis
    by (subst replace_fences.simps) (simp add: fence_match_def replace_fences_False)
next
  case False
  show ?thesis
  proof (cases r)
    case Nil
    then show ?thesis using False
      by (subst replace_fences.simps)
         (simp add: fence_match_def replace_trailing_def fence_close_def asc_def)
  next
    case (Cons c cs)
    show ?thesis
    proof (cases "r = fence_close")
      case True
      then show ?thesis using False
        by (subst replace_fences.simps)
           (simp add: fence_match_def replace_fences_False replace_trailing_def)
    next
      case ne: False
      then show ?thesis using False Cons
        by (subst replace_fences.simps)
           (simp add: fence_match_def replace_fences_False replace_trailing_Cons)
    qed
  qed
qed

lemma length_trim_le: "length (trim s) \<le> length s"
proof -
  have "length (dropWhile is_space (rev (dropWhile is_space s)))
          \<le> length (rev (dropWhile is_space s))"
    by (rule length_dropWhile_le)
  also have "\<dots> \<le> length s" by (simp add: length_dropWhile_le)
  finally show ?thesis by (simp add: trim_def)
qed

lemma dropWhile_unchanged: "xs = [] \<or> \<not> P (hd xs) \<Longrightarrow> dropWhile P xs = xs"
  by (cases xs) auto

lemma trim_unchanged:
  "y = [] \<or> (\<not> is_space (hd y) \<and> \<not> is_space (last y)) \<Longrightarrow> trim y = y"
  unfolding trim_def
  by (cases "y = []") (simp_all add: dropWhile_unchanged hd_rev)

lemma trim_ends: "trim s = [] \<or> (\<not> is_space (hd (trim s)) \<and> \<not> is_space (last (trim s)))"
proof -
  define t where "t = dropWhile is_space s"
  define u where "u = dropWhile is_space (rev t)"
  have ts: "trim s = rev u" by (simp add: trim_def t_def u_def)
  show ?thesis
  proof (cases "u = []")
    case True
    with ts show ?thesis by simp
  next
    case False
    have hu: "\<not> is_space (hd u)" using False unfolding u_def by (rule hd_dropWhile)
    have "rev t = takeWhile is_space (rev t) @ u" by (simp add: u_def)
    with False have "last u = last (rev t)" by (metis last_appendR)
    moreover have "t \<noteq> []" using False by (auto simp: u_def)
    ultimately have "last u = hd t" by (simp add: last_rev)
    moreover have "\<not> is_space (hd t)"
      using \<open>t \<noteq> []\<close> unfolding t_def by (rule hd_dropWhile)
    ultimately show ?thesis using hu False ts by (simp add: hd_rev last_rev)
  qed
qed

lemma sanitize_rewriter_fixed_iff:
  "sanitize_rewriter y = y \<longleftrightarrow> \<not> prefix fence_open_nl y \<and> \<not> suffix nl_fence_close y"
proof (cases "prefix fence_open_nl y")
  case True
  have "length (sanitize_rewriter y) \<le> length (drop (length fence_open_nl) y)"
    using True length_replace_trailing_le [of nl_fence_close "drop (length fence_open_nl) y"]
    by (simp add: sanitize_rewriter_def replace_leading_def)
  moreover have "length fence_open_nl \<le> length y" using True by (rule prefix_length_le)
  ultimately have "length (sanitize_rewriter y) < length y"
    by (simp add: length_fence_open_nl)
  with True show ?thesis by auto
next
  case False
  show ?thesis
  proof (cases "suffix nl_fence_close y")
    case True
    have "length nl_fence_close \<le> length y" using True by (rule suffix_length_le)
    then have "length (sanitize_rewriter y) < length y"
      using True False
      by (simp add: sanitize_rewriter_def replace_leading_def replace_trailing_def
          length_nl_fence_close)
    with True show ?thesis by auto
  next
    case nosuf: False
    with False show ?thesis
      by (simp add: sanitize_rewriter_def replace_leading_def replace_trailing_def)
  qed
qed

lemma sanitize_prompted_fixed_iff:
  assumes "y = [] \<or> (\<not> is_space (hd y) \<and> \<not> is_space (last y))"
  shows "sanitize_prompted y = y \<longleftrightarrow> \<not> prefix fence_open y \<and> \<not> suffix fence_close y"
proof (cases "prefix fence_open y")
  case True
  have "length (sanitize_prompted y)
          \<le> length (dropWhile is_space (drop (length fence_open) y))"
    using True
    by (simp add: sanitize_prompted_def replace_fences_True
        order_trans [OF length_trim_le length_replace_trailing_le])
  also have "\<dots> \<le> length (drop (length fence_open) y)" by (rule length_dropWhile_le)
  finally have "length (sanitize_prompted y) \<le> length y - length fence_open" by simp
  moreover have "length fence_open \<le> length y" using True by (rule prefix_length_le)
  ultimately have "length (sanitize_prompted y) < length y" by (simp add: length_fence_open)
  with True show ?thesis by auto
next
  case False
  show ?thesis
  proof (cases "suffix fence_close y")
    case True
    have "length fence_close \<le> length y" using True by (rule suffix_length_le)
    moreover have "length (sanitize_prompted y) \<le> length y - length fence_close"
      using True False
      by (simp add: sanitize_prompted_def replace_fences_True replace_trailing_def
          order_trans [OF length_trim_le])
    ultimately have "length (sanitize_prompted y) < length y"
      by (simp add: length_fence_close)
    with True show ?thesis by auto
  next
    case nosuf: False
    with False assms show ?thesis
      by (simp add: sanitize_prompted_def replace_fences_True replace_trailing_def
          trim_unchanged)
  qed
qed

text \<open>
  C8. Each sanitizer turns the string \<open>```html\nFOO\n```\<close>, with real newline characters,
  into \<open>FOO\<close>: the one of the HTMLRewriter worker (index.js, line 107) and the one of
  the other worker and of the Node server (server.js, lines 103 and 199).
\<close>

theorem sanitize_fenced_FOO:
  "sanitize_rewriter (asc ''```html\<newline>FOO\<newline>```'') = asc ''FOO'' \<and>
   sanitize_prompted (asc ''```html\<newline>FOO\<newline>```'') = asc ''FOO''"
  by (simp add: sanitize_rewriter_def sanitize_prompted_def replace_fences_True
      replace_leading_def replace_trailing_def asc_def fence_open_nl_def nl_fence_close_def
      fence_open_def fence_close_def suffix_def trim_def is_space_def)

text \<open>
  C5, as the claim states it, fails: under two opening fences each application of a
  sanitizer removes one. The worker with HTMLRewriter maps \<open>```html\n```html\nFOO\<close> to
  \<open>```html\nFOO\<close> and that to \<open>FOO\<close>; the other sanitizer maps \<open>```html```htmlFOO\<close> to
  \<open>```htmlFOO\<close> and that to \<open>FOO\<close>.
\<close>

theorem sanitize_not_idempotent:
  "sanitize_rewriter (sanitize_rewriter (asc ''```html\<newline>```html\<newline>FOO''))
     \<noteq> sanitize_rewriter (asc ''```html\<newline>```html\<newline>FOO'') \<and>
   sanitize_prompted (sanitize_prompted (asc ''```html```htmlFOO''))
     \<noteq> sanitize_prompted (asc ''```html```htmlFOO'')"
  by (simp add: sanitize_rewriter_def sanitize_prompted_def replace_fences_True
      replace_leading_def replace_trailing_def asc_def fence_open_nl_def nl_fence_close_def
      fence_open_def fence_close_def suffix_def trim_def is_space_def)

text \<open>
  C5, amended. For every string \<open>x\<close>, sanitizing the sanitized string again changes
  nothing exactly when the sanitized string neither begins with the opening fence of
  its variant nor ends with its closing fence: \<open>```html\n\<close> and \<open>\n```\<close> in the worker
  with HTMLRewriter, \<open>```html\<close> and \<open>```\<close> in the other two variants.
\<close>

theorem sanitize_twice_iff:
  "(sanitize_rewriter (sanitize_rewriter x) = sanitize_rewriter x \<longleftrightarrow>
      \<not> prefix fence_open_nl (sanitize_rewriter x) \<and>
      \<not> suffix nl_fence_close (sanitize_rewriter x)) \<and>
   (sanitize_prompted (sanitize_prompted x) = sanitize_prompted x \<longleftrightarrow>
      \<not> prefix fence_open (sanitize_prompted x) \<and>
      \<not> suffix fence_close (sanitize_prompted x))"
proof
  show "sanitize_rewriter (sanitize_rewriter x) = sanitize_rewriter x \<longleftrightarrow>
      \<not> prefix fence_open_nl (sanitize_rewriter x) \<and>
      \<not> suffix nl_fence_close (sanitize_rewriter x)"
    by (rule sanitize_rewriter_fixed_iff)
next
  have "trim (replace_fences True x) = [] \<or>
        (\<not> is_space (hd (trim (replace_fences True x))) \<and>
         \<not> is_space (last (trim (replace_fences True x))))"
    by (rule trim_ends)
  then show "sanitize_prompted (sanitize_prompted x) = sanitize_prompted x \<longleftrightarrow>
      \<not> prefix fence_open (sanitize_prompted x) \<and>
      \<not> suffix fence_close (sanitize_prompted x)"
    unfolding sanitize_prompted_def [of x, symmetric]
    by (rule sanitize_prompted_fixed_iff)
qed

theorem sanitize_twice_iff_witness:
  "sanitize_rewriter (sanitize_rewriter (asc ''```html\<newline>FOO\<newline>```''))
     = sanitize_rewriter (asc ''```html\<newline>FOO\<newline>```'') \<and>
   sanitize_prompted (sanitize_prompted (asc ''```html\<newline>FOO\<newline>```''))
     = sanitize_prompted (asc ''```html\<newline>FOO\<newline>```'')"
proof -
  have a: "sanitize_rewriter (asc ''```html\<newline>FOO\<newline>```'') = asc ''FOO''"
    by (simp add: sanitize_rewriter_def replace_leading_def replace_trailing_def asc_def
        fence_open_nl_def nl_fence_close_def suffix_def)
  have b: "sanitize_prompted (asc ''```html\<newline>FOO\<newline>```'') = asc ''FOO''"
    by (simp add: sanitize_prompted_def replace_fences_True replace_trailing_def asc_def
        fence_open_def fence_close_def suffix_def trim_def is_space_def)
  have c: "\<not> prefix fence_open_nl (asc ''FOO'') \<and> \<not> suffix nl_fence_close (asc ''FOO'') \<and>
           \<not> prefix fence_open (asc ''FOO'') \<and> \<not> suffix fence_close (asc ''FOO'')"
    by (simp add: asc_def fence_open_nl_def nl_fence_close_def fence_open_def
        fence_close_def suffix_def)
  show ?thesis
    using sanitize_twice_iff [of "asc ''```html\<newline>FOO\<newline>```''"] c
    unfolding a b by blast
qed

section \<open>getApiKey\<close>

lemma find_first_match:
  "\<forall>a \<in> set before. \<not> p a \<Longrightarrow> p x \<Longrightarrow> find p (before @ x # after) = Some x"
  by (induction before) auto

lemma split_on_nonempty: "split_on sep s \<noteq> []"
  by (induction s) (auto split: list.splits)

lemma hd_split_on: "hd (split_on sep s) = takeWhile (\<lambda>c. c \<noteq> sep) s"
  using split_on_nonempty [of sep]
  by (induction s) (auto split: list.splits)

lemma split_on_append:
  "sep \<notin> set xs \<Longrightarrow> split_on sep (xs @ sep # ys) = xs # split_on sep ys"
  using split_on_nonempty [of sep]
  by (induction xs) (auto split: list.splits)

lemma second_piece:
  "sep \<notin> set name \<Longrightarrow>
   nth_or_undefined (split_on sep (name @ sep # K)) 1 = Some (takeWhile (\<lambda>c. c \<noteq> sep) K)"
  using split_on_nonempty [of sep K] hd_split_on [of sep K]
  by (cases "split_on sep K") (simp_all add: split_on_append nth_or_undefined_def)

text \<open>
  C9. Where the first argument of the form \<open>--apiKey=...\<close> or \<open>--key=...\<close> is
  \<open>--apiKey=K\<close> or \<open>--key=K\<close>, \<open>getApiKey\<close> returns the part of \<open>K\<close> before its first
  \<open>=\<close> (code unit 61): all of \<open>K\<close> where \<open>K\<close> has no \<open>=\<close>, and a strict prefix of \<open>K\<close>
  where it has one.
\<close>

theorem getApiKey_equals_form:
  assumes "flag = asc ''--apiKey'' \<or> flag = asc ''--key''"
    and "\<forall>a \<in> set before. \<not> is_key_equals a"
  shows "getApiKey (before @ (flag @ 61 # K) # after) env_key
           = Some (takeWhile (\<lambda>c. c \<noteq> 61) K) \<and>
         (61 \<notin> set K \<longrightarrow> getApiKey (before @ (flag @ 61 # K) # after) env_key = Some K) \<and>
         (61 \<in> set K \<longrightarrow> strict_prefix (takeWhile (\<lambda>c. c \<noteq> 61) K) K)"
proof -
  let ?arg = "flag @ 61 # K"
  have m: "is_key_equals ?arg"
    using assms(1) by (auto simp: is_key_equals_def asc_def)
  have f: "find is_key_equals (before @ ?arg # after) = Some ?arg"
    using assms(2) m by (rule find_first_match)
  have n: "61 \<notin> set flag" using assms(1) by (auto simp: asc_def)
  have "?arg \<noteq> []" using assms(1) by (auto simp: asc_def)
  then have r: "getApiKey (before @ ?arg # after) env_key
                  = Some (takeWhile (\<lambda>c. c \<noteq> 61) K)"
    using f second_piece [OF n, of K]
    by (simp add: getApiKey_def truthy_str_def interpolate_def)
  have "61 \<notin> set K \<Longrightarrow> takeWhile (\<lambda>c. c \<noteq> 61) K = K"
    by (rule takeWhile_eq_all_conv [THEN iffD2]) auto
  moreover have "61 \<in> set K \<Longrightarrow> strict_prefix (takeWhile (\<lambda>c. c \<noteq> 61) K) K"
  proof -
    assume a: "61 \<in> set K"
    have "prefix (takeWhile (\<lambda>c. c \<noteq> 61) K) K" by (rule takeWhile_is_prefix)
    moreover have "takeWhile (\<lambda>c. c \<noteq> 61) K \<noteq> K"
      using a by (metis (mono_tags, lifting) takeWhile_eq_all_conv)
    ultimately show ?thesis by (simp add: strict_prefix_def)
  qed
  ultimately show ?thesis using r by simp
qed

theorem getApiKey_equals_form_witness:
  "getApiKey [asc ''--verbose'', asc ''--apiKey=abc=def''] None = Some (asc ''abc'') \<and>
   strict_prefix (asc ''abc'') (asc ''abc=def'') \<and>
   getApiKey [asc ''--key=SECRET''] None = Some (asc ''SECRET'')"
proof -
  have h: "\<forall>a \<in> set [asc ''--verbose'']. \<not> is_key_equals a"
    by (simp add: is_key_equals_def asc_def)
  have e: "\<forall>a \<in> set ([] :: jsstring list). \<not> is_key_equals a" by simp
  have k: "(61::nat) \<in> set (asc ''abc=def'')" by (simp add: asc_def)
  have s: "(61::nat) \<notin> set (asc ''SECRET'')" by (simp add: asc_def)
  show ?thesis
    using getApiKey_equals_form [of "asc ''--apiKey''" "[asc ''--verbose'']" "asc ''abc=def''" "[]" None, OF _ h]
      getApiKey_equals_form [of "asc ''--key''" "[]" "asc ''SECRET''" "[]" None, OF _ e] k s
    by (simp add: asc_def)
qed

section \<open>The three entry points\<close>

lemma sublist_skip: "sublist xs ys \<Longrightarrow> sublist xs (ps @ ys)"
  by (auto simp: sublist_def) (metis append.assoc)

lemma upstream_failed_status: "sublist (show_nat st) (upstream_failed st)"
  unfolding upstream_failed_def
  by (rule sublist_append_rightI | rule sublist_order.order.refl | rule sublist_skip)+

lemma request_failed_worker_status: "sublist (show_nat st) (request_failed_worker st t)"
  unfolding request_failed_worker_def
  by (rule sublist_append_rightI | rule sublist_order.order.refl | rule sublist_skip)+

lemma request_failed_node_status: "sublist (show_nat st) (request_failed_node st t)"
  unfolding request_failed_node_def
  by (rule sublist_append_rightI | rule sublist_order.order.refl | rule sublist_skip)+

lemma worker_error_page_message: "sublist m (worker_error_page m)"
  unfolding worker_error_page_def
  by (rule sublist_append_rightI | rule sublist_order.order.refl | rule sublist_skip)+

lemma node_error_page_message: "sublist m (node_error_page m)"
  unfolding node_error_page_def
  by (rule sublist_append_rightI | rule sublist_order.order.refl | rule sublist_skip)+

lemma prompt_template_worker_ad:
  "sublist ad_code (prompt_template_worker m p ua ad_code analytics_code)"
  unfolding prompt_template_worker_def
  by (rule sublist_append_rightI | rule sublist_order.order.refl | rule sublist_skip)+

lemma prompt_template_worker_analytics:
  "sublist analytics_code (prompt_template_worker m p ua ad_code analytics_code)"
  unfolding prompt_template_worker_def
  by (rule sublist_append_rightI | rule sublist_order.order.refl | rule sublist_skip)+

lemma favicon_not_about: "asc ''/about'' \<noteq> favicon"
  by (simp add: favicon_def asc_def)

text \<open>
  C1, as the claim states it, fails in the Node server: with the empty string as its
  key it still calls the generation API for \<open>GET /about\<close>, and it answers 200.
\<close>

theorem node_server_calls_without_key:
  "\<not> (status (fst (server plain_engine (always (Reply unavailable)) (Some []) about_node_request))
        = 500 \<and>
      snd (server plain_engine (always (Reply unavailable)) (Some []) about_node_request) = [])"
  by (simp add: server_def generateHtmlWithAI_node_def about_node_request_def
      favicon_not_about)

text \<open>
  C1, amended. Where the credential is the empty string or absent, both workers answer
  a request that is not for the favicon with status 500 and make no outbound call. The
  Node server does not check its key before the call (line 166 logs a warning): it
  makes the one outbound call and answers 200.
\<close>

theorem missing_credential:
  assumes "\<not> truthy_str (GEMINI_API_KEY env)"
    and "request_pathname request \<noteq> favicon"
    and "\<not> truthy_str apiKey"
    and "req_url req \<noteq> favicon"
  shows "status (fst (fetch_rewriter tok net request env)) = 500 \<and>
         snd (fetch_rewriter tok net request env) = [] \<and>
         status (fst (fetch_worker eng net request env)) = 500 \<and>
         snd (fetch_worker eng net request env) = [] \<and>
         status (fst (server eng net apiKey req)) = 200 \<and>
         snd (server eng net apiKey req) = [call_node apiKey req]"
  using assms
  by (simp add: fetch_rewriter_def fetch_worker_def generateHtmlWithAI_worker_def
      server_def generateHtmlWithAI_node_def)

theorem missing_credential_witness:
  "\<not> truthy_str (GEMINI_API_KEY empty_key_env) \<and>
   request_pathname about_request \<noteq> favicon \<and>
   \<not> truthy_str (Some []) \<and>
   req_url about_node_request \<noteq> favicon \<and>
   status (fst (fetch_rewriter one_head (always (Reply unavailable)) about_request empty_key_env))
     = 500 \<and>
   snd (fetch_rewriter one_head (always (Reply unavailable)) about_request empty_key_env) = [] \<and>
   status (fst (fetch_worker plain_engine (always (Reply unavailable)) about_request empty_key_env))
     = 500 \<and>
   snd (fetch_worker plain_engine (always (Reply unavailable)) about_request empty_key_env) = [] \<and>
   status (fst (server plain_engine (always (Reply unavailable)) (Some []) about_node_request))
     = 200 \<and>
   snd (server plain_engine (always (Reply unavailable)) (Some []) about_node_request)
     = [call_node (Some []) about_node_request]"
proof -
  have h1: "\<not> truthy_str (GEMINI_API_KEY empty_key_env)"
    by (simp add: empty_key_env_def empty_env_def truthy_str_def)
  have h2: "request_pathname about_request \<noteq> favicon"
    by (simp add: about_request_def favicon_not_about)
  have h3: "\<not> truthy_str (Some [])" by (simp add: truthy_str_def)
  have h4: "req_url about_node_request \<noteq> favicon"
    by (simp add: about_node_request_def favicon_not_about)
  show ?thesis
    using h1 h2 h3 h4
      missing_credential [where env = empty_key_env and request = about_request
        and apiKey = "Some []" and req = about_node_request and tok = one_head
        and net = "always (Reply unavailable)" and eng = plain_engine]
    by blast
qed

text \<open>
  C3, as the claim states it, fails twice. The worker with HTMLRewriter checks the
  credential before it looks at the path (index.js, lines 54 and 66), so without a
  credential a request for \<open>/favicon.ico\<close> gets status 500. The Node server compares
  the whole of \<open>req.url\<close> with \<open>/favicon.ico\<close> (server.js, line 214), so a request
  for \<open>/favicon.ico?x=1\<close>, whose path is \<open>/favicon.ico\<close>, is passed to the generation
  API and gets status 200.
\<close>

theorem favicon_without_credential:
  "status (fst (fetch_rewriter one_head (always (Reply unavailable)) favicon_request empty_env))
     \<noteq> 204 \<and>
   url_path (req_url favicon_query_node_request) = favicon \<and>
   status (fst (server plain_engine (always (Reply unavailable)) (Some (asc ''KEY''))
                  favicon_query_node_request)) \<noteq> 204 \<and>
   snd (server plain_engine (always (Reply unavailable)) (Some (asc ''KEY''))
          favicon_query_node_request) \<noteq> []"
proof -
  have a: "status (fst (fetch_rewriter one_head (always (Reply unavailable)) favicon_request
                          empty_env)) \<noteq> 204"
    by (simp add: fetch_rewriter_def empty_env_def truthy_str_def)
  have b: "url_path (req_url favicon_query_node_request) = favicon"
    by (simp add: url_path_def favicon_query_node_request_def favicon_def asc_def)
  have c: "req_url favicon_query_node_request \<noteq> favicon"
    by (simp add: favicon_query_node_request_def favicon_def asc_def)
  have d: "status (fst (server plain_engine (always (Reply unavailable)) (Some (asc ''KEY''))
                          favicon_query_node_request)) \<noteq> 204 \<and>
           snd (server plain_engine (always (Reply unavailable)) (Some (asc ''KEY''))
                  favicon_query_node_request) \<noteq> []"
    using c by (simp add: server_def generateHtmlWithAI_node_def)
  show ?thesis using a b d by blast
qed

text \<open>
  C3, amended. Whatever the method and the user agent: the worker with the snippets in
  the prompt answers a request whose \<open>url.pathname\<close> is \<open>/favicon.ico\<close> with status 204,
  no body and no outbound call, whatever the configuration; the Node server does so
  for a request whose \<open>req.url\<close> is exactly \<open>/favicon.ico\<close>, whatever its key; the worker
  with HTMLRewriter does so for a request whose \<open>url.pathname\<close> is \<open>/favicon.ico\<close> where
  the credential is configured, and answers the 500 of its configuration check where
  the credential is absent or empty.
\<close>

theorem favicon_no_content:
  assumes "request_pathname request = favicon"
    and "req_url req = favicon"
    and "truthy_str (GEMINI_API_KEY env)"
    and "\<not> truthy_str (GEMINI_API_KEY env')"
  shows "fetch_worker eng net request any_env
           = (\<lparr>status = 204, headers = [], body = None\<rparr>, []) \<and>
         server eng net apiKey req
           = (\<lparr>status = 204, headers = [(asc ''Content-Type'', asc ''image/x-icon'')],
               body = None\<rparr>, []) \<and>
         fetch_rewriter tok net request env
           = (\<lparr>status = 204, headers = [], body = None\<rparr>, []) \<and>
         fetch_rewriter tok net request env'
           = (\<lparr>status = 500, headers = text_plain, body = Some not_configured\<rparr>, [])"
  using assms by (simp add: fetch_worker_def server_def fetch_rewriter_def)

theorem favicon_no_content_witness:
  "request_pathname favicon_request = favicon \<and>
   req_url favicon_node_request = favicon \<and>
   truthy_str (GEMINI_API_KEY keyed_env) \<and>
   \<not> truthy_str (GEMINI_API_KEY empty_env) \<and>
   fetch_worker plain_engine (always (Reply unavailable)) favicon_request empty_env
     = (\<lparr>status = 204, headers = [], body = None\<rparr>, []) \<and>
   server plain_engine (always (Reply unavailable)) None favicon_node_request
     = (\<lparr>status = 204, headers = [(asc ''Content-Type'', asc ''image/x-icon'')],
         body = None\<rparr>, []) \<and>
   fetch_rewriter one_head (always (Reply unavailable)) favicon_request keyed_env
     = (\<lparr>status = 204, headers = [], body = None\<rparr>, []) \<and>
   fetch_rewriter one_head (always (Reply unavailable)) favicon_request empty_env
     = (\<lparr>status = 500, headers = text_plain, body = Some not_configured\<rparr>, [])"
proof -
  have h1: "request_pathname favicon_request = favicon"
    by (simp add: favicon_request_def favicon_def)
  have h2: "req_url favicon_node_request = favicon"
    by (simp add: favicon_node_request_def favicon_def)
  have h3: "truthy_str (GEMINI_API_KEY keyed_env)"
    by (simp add: keyed_env_def empty_env_def truthy_str_def asc_def)
  have h4: "\<not> truthy_str (GEMINI_API_KEY empty_env)"
    by (simp add: empty_env_def truthy_str_def)
  show ?thesis
    using h1 h2 h3 h4
      favicon_no_content [where request = favicon_request and req = favicon_node_request
        and env = keyed_env and env' = empty_env and any_env = empty_env
        and eng = plain_engine
        and net = "always (Reply unavailable)" and apiKey = None and tok = one_head]
    by blast
qed

text \<open>
  C2, as the claim states it, fails in the worker with the snippets in the prompt:
  where the generation API answers 503, \<open>generateHtmlWithAI\<close> throws and the handler
  answers 500, not 502.
\<close>

theorem worker_answers_500_to_503:
  "status (fst (fetch_worker plain_engine (always (Reply unavailable)) about_request keyed_env))
     \<noteq> 502"
  by (simp add: fetch_worker_def generateHtmlWithAI_worker_def about_request_def
      favicon_not_about keyed_env_def empty_env_def truthy_str_def always_def ok_def
      unavailable_def asc_def)

text \<open>
  C2, amended. Where the outbound call returns a reply whose status is outside 200 to
  299 and the text of whose body can be read, the body of the response contains the
  decimal digits of that status in every variant, and the status of the response is
  502 in the worker with HTMLRewriter, 500 in the worker with the snippets in the
  prompt (the error page of its \<open>catch\<close>) and 200 in the Node server (the error page
  that \<open>generateHtmlWithAI\<close> returns).
\<close>

theorem upstream_failure:
  assumes "\<not> ok r"
    and "up_text r = Inr errorBody"
    and "truthy_str (GEMINI_API_KEY env)"
    and "request_pathname request \<noteq> favicon"
    and "req_url req \<noteq> favicon"
    and "net (call_rewriter request env) = Reply r"
    and "net (call_worker request env) = Reply r"
    and "net (call_node apiKey req) = Reply r"
  shows "fetch_rewriter tok net request env
           = (\<lparr>status = 502, headers = [], body = Some (upstream_failed (up_status r))\<rparr>,
              [call_rewriter request env]) \<and>
         sublist (show_nat (up_status r)) (upstream_failed (up_status r)) \<and>
         fetch_worker eng net request env
           = (\<lparr>status = 500, headers = text_html,
               body = Some (worker_error_page
                        (request_failed_worker (up_status r) errorBody))\<rparr>,
              [call_worker request env]) \<and>
         sublist (show_nat (up_status r))
           (worker_error_page (request_failed_worker (up_status r) errorBody)) \<and>
         server eng net apiKey req
           = (\<lparr>status = 200, headers = text_html,
               body = Some (node_error_page
                        (request_failed_node (up_status r) errorBody))\<rparr>,
              [call_node apiKey req]) \<and>
         sublist (show_nat (up_status r))
           (node_error_page (request_failed_node (up_status r) errorBody))"
proof -
  have a: "fetch_rewriter tok net request env
             = (\<lparr>status = 502, headers = [], body = Some (upstream_failed (up_status r))\<rparr>,
                [call_rewriter request env])"
    using assms by (simp add: fetch_rewriter_def respond_rewriter_def)
  have b: "fetch_worker eng net request env
             = (\<lparr>status = 500, headers = text_html,
                 body = Some (worker_error_page
                          (request_failed_worker (up_status r) errorBody))\<rparr>,
                [call_worker request env])"
    using assms by (simp add: fetch_worker_def generateHtmlWithAI_worker_def)
  have c: "server eng net apiKey req
             = (\<lparr>status = 200, headers = text_html,
                 body = Some (node_error_page
                          (request_failed_node (up_status r) errorBody))\<rparr>,
                [call_node apiKey req])"
    using assms by (simp add: server_def generateHtmlWithAI_node_def)
  have d: "sublist (show_nat (up_status r))
             (worker_error_page (request_failed_worker (up_status r) errorBody))"
    using request_failed_worker_status worker_error_page_message
    by (rule sublist_order.order.trans)
  have e: "sublist (show_nat (up_status r))
             (node_error_page (request_failed_node (up_status r) errorBody))"
    using request_failed_node_status node_error_page_message
    by (rule sublist_order.order.trans)
  show ?thesis using a b c d e upstream_failed_status by blast
qed

theorem upstream_failure_witness:
  "\<not> ok unavailable \<and>
   up_text unavailable = Inr (asc ''Service Unavailable'') \<and>
   truthy_str (GEMINI_API_KEY keyed_env) \<and>
   request_pathname about_request \<noteq> favicon \<and>
   req_url about_node_request \<noteq> favicon \<and>
   up_status unavailable = 503 \<and>
   show_nat 503 = asc ''503'' \<and>
   fetch_rewriter one_head (always (Reply unavailable)) about_request keyed_env
     = (\<lparr>status = 502, headers = [], body = Some (upstream_failed 503)\<rparr>,
        [call_rewriter about_request keyed_env]) \<and>
   sublist (asc ''503'') (upstream_failed 503) \<and>
   status (fst (fetch_worker plain_engine (always (Reply unavailable)) about_request keyed_env))
     = 500 \<and>
   sublist (asc ''503'')
     (worker_error_page (request_failed_worker 503 (asc ''Service Unavailable''))) \<and>
   status (fst (server plain_engine (always (Reply unavailable)) (Some (asc ''KEY''))
                  about_node_request)) = 200 \<and>
   sublist (asc ''503'')
     (node_error_page (request_failed_node 503 (asc ''Service Unavailable'')))"
proof -
  have h1: "\<not> ok unavailable" by (simp add: ok_def unavailable_def)
  have h0: "up_text unavailable = Inr (asc ''Service Unavailable'')"
    by (simp add: unavailable_def)
  have h2: "truthy_str (GEMINI_API_KEY keyed_env)"
    by (simp add: keyed_env_def empty_env_def truthy_str_def asc_def)
  have h3: "request_pathname about_request \<noteq> favicon"
    by (simp add: about_request_def favicon_not_about)
  have h4: "req_url about_node_request \<noteq> favicon"
    by (simp add: about_node_request_def favicon_not_about)
  have h5: "always (Reply unavailable) (call_rewriter about_request keyed_env) = Reply unavailable"
    by (simp add: always_def)
  have h6: "always (Reply unavailable) (call_worker about_request keyed_env) = Reply unavailable"
    by (simp add: always_def)
  have h7: "always (Reply unavailable) (call_node (Some (asc ''KEY'')) about_node_request)
              = Reply unavailable"
    by (simp add: always_def)
  have s: "up_status unavailable = 503" by (simp add: unavailable_def)
  have "show_nat 50 = [53, 48]"
    by (subst show_nat.simps, subst show_nat.simps) simp
  then have d: "show_nat 503 = asc ''503''"
    by (subst show_nat.simps) (simp add: asc_def)
  show ?thesis
    using h0 h1 h2 h3 h4 d s
      upstream_failure [where r = unavailable and errorBody = "asc ''Service Unavailable''"
        and env = keyed_env and request = about_request
        and req = about_node_request and net = "always (Reply unavailable)"
        and apiKey = "Some (asc ''KEY'')" and tok = one_head and eng = plain_engine,
        OF h1 h0 h2 h3 h4 h5 h6 h7]
    by simp
qed

text \<open>
  Where the text of the body of such a reply cannot be read, the rejection of the read
  is what the \<open>catch\<close> of each variant sees: the worker with HTMLRewriter answers 500
  with its internal-error body, and the other two variants send their error page
  around the message of the rejection.
\<close>

lemma unreadable_error_body:
  assumes "\<not> ok r"
    and "up_text r = Inl m"
    and "truthy_str (GEMINI_API_KEY env)"
    and "request_pathname request \<noteq> favicon"
    and "req_url req \<noteq> favicon"
    and "net (call_rewriter request env) = Reply r"
    and "net (call_worker request env) = Reply r"
    and "net (call_node apiKey req) = Reply r"
  shows "fetch_rewriter tok net request env
           = (\<lparr>status = 500, headers = text_html, body = Some internal_error\<rparr>,
              [call_rewriter request env])"
    and "fetch_worker eng net request env
           = (\<lparr>status = 500, headers = text_html, body = Some (worker_error_page m)\<rparr>,
              [call_worker request env])"
    and "server eng net apiKey req
           = (\<lparr>status = 200, headers = text_html, body = Some (node_error_page m)\<rparr>,
              [call_node apiKey req])"
  using assms
  by (simp_all add: fetch_rewriter_def respond_rewriter_def fetch_worker_def
      generateHtmlWithAI_worker_def server_def generateHtmlWithAI_node_def)

text \<open>
  C6, as the claim states it, fails in the Node server: for a 200 reply whose envelope
  has no \<open>candidates\<close> field \<open>generateHtmlWithAI\<close> returns its fallback page and the
  server answers 200.
\<close>

theorem node_server_answers_200_without_candidates:
  "status (fst (server plain_engine (always (Reply no_candidates)) (Some (asc ''KEY''))
                  about_node_request)) \<noteq> 500"
  by (simp add: server_def generateHtmlWithAI_node_def about_node_request_def
      favicon_not_about)

text \<open>
  C6, amended. Where the generation API returns a reply with a status from 200 to 299
  whose envelope is an object without a \<open>candidates\<close> field, the worker with
  HTMLRewriter answers 500 with the body "Received an unexpected response format from
  the AI model.", the worker with the snippets in the prompt answers 500 with its error
  page around "Failed to get valid content from the AI. Check Worker logs for details.",
  and the Node server answers 200 with its fallback page.
\<close>

theorem envelope_without_candidates:
  assumes "ok r"
    and "up_json r = Inr (JObj kvs)"
    and "map_of kvs (asc ''candidates'') = None"
    and "truthy_str (GEMINI_API_KEY env)"
    and "request_pathname request \<noteq> favicon"
    and "req_url req \<noteq> favicon"
    and "net (call_rewriter request env) = Reply r"
    and "net (call_worker request env) = Reply r"
    and "net (call_node apiKey req) = Reply r"
  shows "fetch_rewriter tok net request env
           = (\<lparr>status = 500, headers = [], body = Some unexpected_format\<rparr>,
              [call_rewriter request env]) \<and>
         fetch_worker eng net request env
           = (\<lparr>status = 500, headers = text_html,
               body = Some (worker_error_page no_valid_content)\<rparr>,
              [call_worker request env]) \<and>
         server eng net apiKey req
           = (\<lparr>status = 200, headers = text_html, body = Some fallback_page\<rparr>,
              [call_node apiKey req])"
proof -
  have a: "extract_rewriter (JObj kvs) = Inr None"
    using assms(3) by (simp add: extract_rewriter_def and_then_def)
  have b: "extract_worker (JObj kvs) = Inl (Error no_valid_content)"
    using assms(3) by (simp add: extract_worker_def and_then_def)
  have c: "extract_node eng (JObj kvs) = Inr fallback_page"
    using assms(3) by (simp add: extract_node_def and_then_def)
  show ?thesis
    using assms(1,2,4-9) a b c
    by (simp add: fetch_rewriter_def respond_rewriter_def and_then_def fetch_worker_def
        generateHtmlWithAI_worker_def server_def generateHtmlWithAI_node_def)
qed

theorem envelope_without_candidates_witness:
  "ok no_candidates \<and>
   up_json no_candidates = Inr (JObj []) \<and>
   map_of ([] :: (jsstring \<times> jsval) list) (asc ''candidates'') = None \<and>
   truthy_str (GEMINI_API_KEY keyed_env) \<and>
   request_pathname about_request \<noteq> favicon \<and>
   req_url about_node_request \<noteq> favicon \<and>
   fetch_rewriter one_head (always (Reply no_candidates)) about_request keyed_env
     = (\<lparr>status = 500, headers = [], body = Some unexpected_format\<rparr>,
        [call_rewriter about_request keyed_env]) \<and>
   fetch_worker plain_engine (always (Reply no_candidates)) about_request keyed_env
     = (\<lparr>status = 500, headers = text_html,
         body = Some (worker_error_page no_valid_content)\<rparr>,
        [call_worker about_request keyed_env]) \<and>
   server plain_engine (always (Reply no_candidates)) (Some (asc ''KEY'')) about_node_request
     = (\<lparr>status = 200, headers = text_html, body = Some fallback_page\<rparr>,
        [call_node (Some (asc ''KEY'')) about_node_request])"
proof -
  have h1: "ok no_candidates" by (simp add: ok_def no_candidates_def)
  have h2: "up_json no_candidates = Inr (JObj [])" by (simp add: no_candidates_def)
  have h3: "map_of ([] :: (jsstring \<times> jsval) list) (asc ''candidates'') = None" by simp
  have h4: "truthy_str (GEMINI_API_KEY keyed_env)"
    by (simp add: keyed_env_def empty_env_def truthy_str_def asc_def)
  have h5: "request_pathname about_request \<noteq> favicon"
    by (simp add: about_request_def favicon_not_about)
  have h6: "req_url about_node_request \<noteq> favicon"
    by (simp add: about_node_request_def favicon_not_about)
  have h7: "always (Reply no_candidates) (call_rewriter about_request keyed_env)
              = Reply no_candidates"
    by (simp add: always_def)
  have h8: "always (Reply no_candidates) (call_worker about_request keyed_env)
              = Reply no_candidates"
    by (simp add: always_def)
  have h9: "always (Reply no_candidates) (call_node (Some (asc ''KEY'')) about_node_request)
              = Reply no_candidates"
    by (simp add: always_def)
  show ?thesis
    using h1 h2 h4 h5 h6
      envelope_without_candidates [where r = no_candidates and kvs = "[]" and env = keyed_env
        and request = about_request and req = about_node_request
        and net = "always (Reply no_candidates)" and apiKey = "Some (asc ''KEY'')"
        and tok = one_head and eng = plain_engine, OF h1 h2 h3 h4 h5 h6 h7 h8 h9]
    by simp
qed

text \<open>
  C10. In the worker with HTMLRewriter, a reply with a status from 200 to 299 whose
  envelope has the empty array as its \<open>candidates\<close>: the array is truthy, its element 0
  is \<open>undefined\<close>, and reading \<open>.content\<close> of it throws a \<open>TypeError\<close> in line 104. The
  \<open>catch\<close> of line 123 answers 500 with the body "An internal error occurred while
  processing the request.", which is not the body of the unexpected-format response of
  line 110.
\<close>

theorem empty_candidates_TypeError:
  assumes "ok r"
    and "up_json r = Inr (JObj kvs)"
    and "map_of kvs (asc ''candidates'') = Some (JArr [])"
    and "truthy_str (GEMINI_API_KEY env)"
    and "request_pathname request \<noteq> favicon"
    and "net (call_rewriter request env) = Reply r"
  shows "extract_rewriter (JObj kvs)
           = Inl (TypeError_read JUndefined (Named (asc ''content''))) \<and>
         fetch_rewriter tok net request env
           = (\<lparr>status = 500, headers = text_html, body = Some internal_error\<rparr>,
              [call_rewriter request env]) \<and>
         internal_error \<noteq> unexpected_format"
proof -
  have a: "extract_rewriter (JObj kvs)
             = Inl (TypeError_read JUndefined (Named (asc ''content'')))"
    using assms(3) by (simp add: extract_rewriter_def and_then_def)
  have b: "internal_error \<noteq> unexpected_format"
    by (simp add: internal_error_def unexpected_format_def asc_def)
  show ?thesis
    using assms(1,2,4-6) a b
    by (simp add: fetch_rewriter_def respond_rewriter_def and_then_def)
qed

theorem empty_candidates_TypeError_witness:
  "ok empty_candidates \<and>
   up_json empty_candidates = Inr (JObj [(asc ''candidates'', JArr [])]) \<and>
   map_of [(asc ''candidates'', JArr [])] (asc ''candidates'') = Some (JArr []) \<and>
   truthy_str (GEMINI_API_KEY keyed_env) \<and>
   request_pathname about_request \<noteq> favicon \<and>
   extract_rewriter (JObj [(asc ''candidates'', JArr [])])
     = Inl (TypeError_read JUndefined (Named (asc ''content''))) \<and>
   fetch_rewriter one_head (always (Reply empty_candidates)) about_request keyed_env
     = (\<lparr>status = 500, headers = text_html, body = Some internal_error\<rparr>,
        [call_rewriter about_request keyed_env]) \<and>
   internal_error \<noteq> unexpected_format"
proof -
  have h1: "ok empty_candidates" by (simp add: ok_def empty_candidates_def)
  have h2: "up_json empty_candidates = Inr (JObj [(asc ''candidates'', JArr [])])"
    by (simp add: empty_candidates_def)
  have h3: "map_of [(asc ''candidates'', JArr [])] (asc ''candidates'') = Some (JArr [])"
    by simp
  have h4: "truthy_str (GEMINI_API_KEY keyed_env)"
    by (simp add: keyed_env_def empty_env_def truthy_str_def asc_def)
  have h5: "request_pathname about_request \<noteq> favicon"
    by (simp add: about_request_def favicon_not_about)
  have h6: "always (Reply empty_candidates) (call_rewriter about_request keyed_env)
              = Reply empty_candidates"
    by (simp add: always_def)
  show ?thesis
    using h1 h2 h3 h4 h5
      empty_candidates_TypeError [where r = empty_candidates
        and kvs = "[(asc ''candidates'', JArr [])]" and env = keyed_env
        and request = about_request and net = "always (Reply empty_candidates)"
        and tok = one_head, OF h1 h2 h3 h4 h5 h6]
    by simp
qed

section \<open>The end-to-end scenario\<close>

text \<open>
  \<open>GET /about\<close> from \<open>TestAgent/1.0\<close>, answered by the generation API with the document
  of the scenario between fences: the worker with HTMLRewriter answers 200 with the
  document, both snippets before \<open></head>\<close>, after one outbound call; the other worker
  and the Node server answer 200 with the document as it is.
\<close>

lemma fenced_text_not_empty:
  "asc ''```html\<newline>'' @ example_document @ asc ''\<newline>```'' \<noteq> []"
  by (simp add: asc_def)

lemma sanitize_rewriter_fenced:
  "sanitize_rewriter (asc ''```html\<newline>'' @ example_document @ asc ''\<newline>```'')
     = example_document"
  by (simp add: sanitize_rewriter_def replace_leading_def replace_trailing_def
      example_document_def fence_open_nl_def nl_fence_close_def asc_def suffix_def)

lemma sanitize_prompted_fenced:
  "sanitize_prompted (asc ''```html\<newline>'' @ example_document @ asc ''\<newline>```'')
     = example_document"
  by (simp add: sanitize_prompted_def replace_fences_True replace_trailing_def trim_def
      example_document_def fence_open_def fence_close_def asc_def suffix_def is_space_def)

lemma extract_rewriter_fenced: "extract_rewriter fenced_envelope = Inr (Some example_document)"
  using fenced_text_not_empty sanitize_rewriter_fenced
  by (simp add: fenced_envelope_def extract_rewriter_def and_then_def asc_def)

lemma extract_worker_fenced: "extract_worker fenced_envelope = Inr example_document"
  using fenced_text_not_empty sanitize_prompted_fenced
  by (simp add: fenced_envelope_def extract_worker_def and_then_def get_opt_def asc_def)

lemma extract_node_fenced: "extract_node eng fenced_envelope = Inr example_document"
  using sanitize_prompted_fenced
  by (simp add: fenced_envelope_def extract_node_def and_then_def gt_zero_def asc_def)

lemma scenario_rewriter:
  \<open>fetch_rewriter one_head (always (Reply fenced_document)) about_request tagged_env
     = (\<lparr>status = 200, headers = text_html,
         body = Some (asc ''<html>'' @ asc ''<head><meta charset="utf-8">'' @
                      ga_snippet (asc ''G-TEST'') @ ad_snippet (asc ''ca-pub-TEST'') @
                      asc ''</head>'' @ asc ''<body><a href="/">Home</a></body></html>'')\<rparr>,
        [call_rewriter about_request tagged_env])\<close>
proof -
  have k: "truthy_str (GEMINI_API_KEY tagged_env)"
    by (simp add: tagged_env_def keyed_env_def empty_env_def truthy_str_def asc_def)
  have p: "request_pathname about_request \<noteq> favicon"
    by (simp add: about_request_def favicon_not_about)
  have o: "ok fenced_document" by (simp add: ok_def fenced_document_def)
  have j: "up_json fenced_document = Inr fenced_envelope" by (simp add: fenced_document_def)
  have h: "appended (HeadInjector_element tagged_env \<lparr>appended = []\<rparr>)
             = [ga_snippet (asc ''G-TEST''), ad_snippet (asc ''ca-pub-TEST'')]"
    by (simp add: HeadInjector_element_def tagged_env_def keyed_env_def empty_env_def
        truthy_str_def interpolate_def append_html_def asc_def)
  have t: \<open>transform one_head (HeadInjector_element tagged_env) example_document
             = asc ''<html>'' @ asc ''<head><meta charset="utf-8">'' @
               ga_snippet (asc ''G-TEST'') @ ad_snippet (asc ''ca-pub-TEST'') @
               asc ''</head>'' @ asc ''<body><a href="/">Home</a></body></html>''\<close>
    using h by (simp add: transform_def one_head_def)
  have "respond_rewriter one_head tagged_env (Reply fenced_document)
          = Inr \<lparr>status = 200, headers = text_html,
                 body = Some (transform one_head (HeadInjector_element tagged_env)
                                example_document)\<rparr>"
    using o j extract_rewriter_fenced by (simp add: respond_rewriter_def and_then_def)
  then show ?thesis
    using k p unfolding t by (simp add: fetch_rewriter_def always_def)
qed

lemma scenario_worker:
  "fetch_worker plain_engine (always (Reply fenced_document)) about_request keyed_env
     = (\<lparr>status = 200, headers = text_html, body = Some example_document\<rparr>,
        [call_worker about_request keyed_env])"
proof -
  have k: "truthy_str (GEMINI_API_KEY keyed_env)"
    by (simp add: keyed_env_def empty_env_def truthy_str_def asc_def)
  have p: "request_pathname about_request \<noteq> favicon"
    by (simp add: about_request_def favicon_not_about)
  have o: "ok fenced_document" by (simp add: ok_def fenced_document_def)
  have j: "up_json fenced_document = Inr fenced_envelope" by (simp add: fenced_document_def)
  show ?thesis
    using k p o j extract_worker_fenced
    by (simp add: fetch_worker_def generateHtmlWithAI_worker_def always_def)
qed

lemma scenario_node:
  "server plain_engine (always (Reply fenced_document)) (Some (asc ''KEY'')) about_node_request
     = (\<lparr>status = 200, headers = text_html, body = Some example_document\<rparr>,
        [call_node (Some (asc ''KEY'')) about_node_request])"
proof -
  have p: "req_url about_node_request \<noteq> favicon"
    by (simp add: about_node_request_def favicon_not_about)
  have o: "ok fenced_document" by (simp add: ok_def fenced_document_def)
  have j: "up_json fenced_document = Inr fenced_envelope" by (simp add: fenced_document_def)
  show ?thesis
    using p o j extract_node_fenced [of plain_engine]
    by (simp add: server_def generateHtmlWithAI_node_def always_def)
qed

section \<open>Markup injection\<close>

lemma HeadInjector_nothing:
  "\<not> truthy_str (GA_MEASUREMENT_ID env) \<Longrightarrow> \<not> truthy_str (ADSENSE_CLIENT_ID env) \<Longrightarrow>
   HeadInjector_element env el = el"
  by (simp add: HeadInjector_element_def)

lemma rewrite_segment_nothing:
  assumes "\<And>el. handler el = el"
  shows "rewrite_segment handler = segment_text"
proof
  fix seg
  show "rewrite_segment handler seg = segment_text seg"
    using assms by (cases seg) simp_all
qed

lemma prompt_worker_placeholders:
  assumes "\<not> truthy_str (GOOGLE_ADSENSE_ID env)"
    and "\<not> truthy_str (GOOGLE_ANALYTICS_ID env)"
  shows "sublist (adSenseCode default_adsense_id) (prompt_worker m p ua env)"
    and "sublist (analyticsCode default_analytics_id) (prompt_worker m p ua env)"
proof -
  have "or_default (GOOGLE_ADSENSE_ID env) default_adsense_id = default_adsense_id"
    using assms(1) by (simp add: or_default_def truthy_str_def split: option.splits)
  moreover have "or_default (GOOGLE_ANALYTICS_ID env) default_analytics_id
                   = default_analytics_id"
    using assms(2) by (simp add: or_default_def truthy_str_def split: option.splits)
  ultimately have c: "prompt_worker m p ua env
      = prompt_template_worker m p ua (adSenseCode default_adsense_id)
          (analyticsCode default_analytics_id)"
    by (simp add: prompt_worker_def)
  show "sublist (adSenseCode default_adsense_id) (prompt_worker m p ua env)"
    unfolding c by (rule prompt_template_worker_ad)
  show "sublist (analyticsCode default_analytics_id) (prompt_worker m p ua env)"
    unfolding c by (rule prompt_template_worker_analytics)
qed

text \<open>
  C4, as the claim states it, fails in the prompt-embedded variant. With a credential
  and with both identifiers absent, the worker answers \<open>GET /about\<close> after one outbound
  call, and the prompt that this call carries holds the AdSense script tag, with the
  placeholder \<open>ca-pub-XXXXXXXXXXXXXXXX\<close> as its client.
\<close>

theorem prompt_has_script_without_ids:
  "GOOGLE_ADSENSE_ID keyed_env = None \<and> GOOGLE_ANALYTICS_ID keyed_env = None \<and>
   snd (fetch_worker plain_engine (always (Reply fenced_document)) about_request keyed_env)
     = [call_worker about_request keyed_env] \<and>
   out_payload (call_worker about_request keyed_env)
     = payload (prompt_worker (asc ''GET'') (asc ''/about'') (asc ''TestAgent/1.0'') keyed_env) \<and>
   sublist (adSenseCode (asc ''ca-pub-XXXXXXXXXXXXXXXX''))
     (prompt_worker (asc ''GET'') (asc ''/about'') (asc ''TestAgent/1.0'') keyed_env) \<and>
   prefix (asc ''<script'') (adSenseCode (asc ''ca-pub-XXXXXXXXXXXXXXXX''))"
proof -
  have n: "\<not> truthy_str (GOOGLE_ADSENSE_ID keyed_env)"
    "\<not> truthy_str (GOOGLE_ANALYTICS_ID keyed_env)"
    by (simp_all add: keyed_env_def empty_env_def truthy_str_def)
  have a: "GOOGLE_ADSENSE_ID keyed_env = None \<and> GOOGLE_ANALYTICS_ID keyed_env = None"
    by (simp add: keyed_env_def empty_env_def)
  have b: "snd (fetch_worker plain_engine (always (Reply fenced_document)) about_request
                  keyed_env) = [call_worker about_request keyed_env]"
    by (simp add: scenario_worker)
  have c: "out_payload (call_worker about_request keyed_env)
     = payload (prompt_worker (asc ''GET'') (asc ''/about'') (asc ''TestAgent/1.0'') keyed_env)"
    by (simp add: call_worker_def post_json_def about_request_def or_default_def asc_def)
  have d: "sublist (adSenseCode (asc ''ca-pub-XXXXXXXXXXXXXXXX''))
     (prompt_worker (asc ''GET'') (asc ''/about'') (asc ''TestAgent/1.0'') keyed_env)"
    using prompt_worker_placeholders(1) [OF n] by (simp add: default_adsense_id_def)
  have e: "prefix (asc ''<script'') (adSenseCode (asc ''ca-pub-XXXXXXXXXXXXXXXX''))"
    by (simp add: adSenseCode_def asc_def)
  show ?thesis using a b c d e by blast
qed

text \<open>
  C4, amended. Where both optional identifiers are absent (or empty), the handler of
  the structural variant appends nothing to the \<open>head\<close> element, so the rewriter writes
  every segment of the document as it read it, and nothing in it can throw. In the
  prompt-embedded variant, for a request that is not for the favicon and with a
  configured credential, the absent identifiers raise no error: the worker makes its
  one outbound call, and where the reply has a status from 200 to 299 and an envelope
  from which a text is extracted, it answers 200 with that text. But it does not leave
  its snippets out: the prompt of the call carries the AdSense and the Analytics
  script tags with the placeholders \<open>ca-pub-XXXXXXXXXXXXXXXX\<close> and \<open>G-XXXXXXXXXX\<close>.
\<close>

theorem injection_without_ids:
  assumes "\<not> truthy_str (GA_MEASUREMENT_ID env)"
    and "\<not> truthy_str (ADSENSE_CLIENT_ID env)"
    and "\<not> truthy_str (GOOGLE_ADSENSE_ID env')"
    and "\<not> truthy_str (GOOGLE_ANALYTICS_ID env')"
    and "truthy_str (GEMINI_API_KEY env')"
    and "request_pathname request \<noteq> favicon"
    and "net (call_worker request env') = Reply r"
    and "ok r"
    and "up_json r = Inr result"
    and "extract_worker result = Inr htmlContent"
  shows "HeadInjector_element env el = el \<and>
         transform tok (HeadInjector_element env) html = concat (map segment_text (tok html)) \<and>
         fetch_worker eng net request env'
           = (\<lparr>status = 200, headers = text_html, body = Some htmlContent\<rparr>,
              [call_worker request env']) \<and>
         out_payload (call_worker request env')
           = payload (prompt_worker (request_method request) (request_pathname request)
                        (or_default (request_user_agent request) (asc ''Unknown'')) env') \<and>
         sublist (adSenseCode default_adsense_id) (prompt_worker m p ua env') \<and>
         sublist (analyticsCode default_analytics_id) (prompt_worker m p ua env')"
proof -
  have a: "\<And>el. HeadInjector_element env el = el"
    using assms(1,2) by (rule HeadInjector_nothing)
  have b: "transform tok (HeadInjector_element env) html = concat (map segment_text (tok html))"
    using rewrite_segment_nothing [of "HeadInjector_element env", OF a]
    by (simp add: transform_def)
  have c: "fetch_worker eng net request env'
           = (\<lparr>status = 200, headers = text_html, body = Some htmlContent\<rparr>,
              [call_worker request env'])"
    using assms(5-10) by (simp add: fetch_worker_def generateHtmlWithAI_worker_def)
  have d: "out_payload (call_worker request env')
           = payload (prompt_worker (request_method request) (request_pathname request)
                        (or_default (request_user_agent request) (asc ''Unknown'')) env')"
    by (simp add: call_worker_def post_json_def)
  show ?thesis
    using a b c d prompt_worker_placeholders [OF assms(3,4)] by blast
qed

theorem injection_without_ids_witness:
  "\<not> truthy_str (GA_MEASUREMENT_ID keyed_env) \<and>
   \<not> truthy_str (ADSENSE_CLIENT_ID keyed_env) \<and>
   \<not> truthy_str (GOOGLE_ADSENSE_ID keyed_env) \<and>
   \<not> truthy_str (GOOGLE_ANALYTICS_ID keyed_env) \<and>
   truthy_str (GEMINI_API_KEY keyed_env) \<and>
   request_pathname about_request \<noteq> favicon \<and>
   ok fenced_document \<and>
   up_json fenced_document = Inr fenced_envelope \<and>
   extract_worker fenced_envelope = Inr example_document \<and>
   HeadInjector_element keyed_env \<lparr>appended = []\<rparr> = \<lparr>appended = []\<rparr> \<and>
   transform one_head (HeadInjector_element keyed_env) example_document
     = concat (map segment_text (one_head example_document)) \<and>
   fetch_worker plain_engine (always (Reply fenced_document)) about_request keyed_env
     = (\<lparr>status = 200, headers = text_html, body = Some example_document\<rparr>,
        [call_worker about_request keyed_env]) \<and>
   sublist (adSenseCode default_adsense_id)
     (prompt_worker (asc ''GET'') (asc ''/about'') (asc ''TestAgent/1.0'') keyed_env) \<and>
   sublist (analyticsCode default_analytics_id)
     (prompt_worker (asc ''GET'') (asc ''/about'') (asc ''TestAgent/1.0'') keyed_env)"
proof -
  have h1: "\<not> truthy_str (GA_MEASUREMENT_ID keyed_env)"
    by (simp add: keyed_env_def empty_env_def truthy_str_def)
  have h2: "\<not> truthy_str (ADSENSE_CLIENT_ID keyed_env)"
    by (simp add: keyed_env_def empty_env_def truthy_str_def)
  have h3: "\<not> truthy_str (GOOGLE_ADSENSE_ID keyed_env)"
    by (simp add: keyed_env_def empty_env_def truthy_str_def)
  have h4: "\<not> truthy_str (GOOGLE_ANALYTICS_ID keyed_env)"
    by (simp add: keyed_env_def empty_env_def truthy_str_def)
  have h5: "truthy_str (GEMINI_API_KEY keyed_env)"
    by (simp add: keyed_env_def empty_env_def truthy_str_def asc_def)
  have h6: "request_pathname about_request \<noteq> favicon"
    by (simp add: about_request_def favicon_not_about)
  have h7: "always (Reply fenced_document) (call_worker about_request keyed_env)
              = Reply fenced_document"
    by (simp add: always_def)
  have h8: "ok fenced_document" by (simp add: ok_def fenced_document_def)
  have h9: "up_json fenced_document = Inr fenced_envelope" by (simp add: fenced_document_def)
  note h10 = extract_worker_fenced
  show ?thesis
    using h1 h2 h3 h4 h5 h6 h8 h9 h10
      injection_without_ids [where env = keyed_env and env' = keyed_env
        and el = "\<lparr>appended = []\<rparr>" and tok = one_head and html = example_document
        and request = about_request and net = "always (Reply fenced_document)"
        and r = fenced_document and result = fenced_envelope
        and htmlContent = example_document and eng = plain_engine
        and m = "asc ''GET''" and p = "asc ''/about''" and ua = "asc ''TestAgent/1.0''",
        OF h1 h2 h3 h4 h5 h6 h7 h8 h9 h10]
    by blast
qed

lemma occurrences_skip:
  "c \<notin> set g \<Longrightarrow> occurrences (c # ps) (g @ rest) = occurrences (c # ps) rest"
  by (induction g) auto

lemma prefix_before_foreign:
  assumes "c \<notin> set pat"
  shows "prefix pat (xs @ c # ys) \<longleftrightarrow> prefix pat xs"
proof
  assume "prefix pat (xs @ c # ys)"
  then consider "prefix pat xs" | us where "pat = xs @ us" "prefix us (c # ys)"
    by (auto simp: prefix_append)
  then show "prefix pat xs"
  proof cases
    case 1
    then show ?thesis .
  next
    case 2
    with assms have "us = []" by (cases us) auto
    with 2 show ?thesis by simp
  qed
next
  assume "prefix pat xs"
  then show "prefix pat (xs @ c # ys)" by (rule prefix_prefix)
qed

lemma occurrences_before_foreign:
  assumes "c \<notin> set pat" and "pat \<noteq> []"
  shows "occurrences pat (xs @ c # ys) = occurrences pat xs + occurrences pat (c # ys)"
proof (induction xs)
  case Nil
  from assms(2) show ?case by simp
next
  case (Cons x xs)
  have "prefix pat ((x # xs) @ c # ys) \<longleftrightarrow> prefix pat (x # xs)"
    using assms(1) by (rule prefix_before_foreign)
  with Cons show ?case by simp
qed

lemma ga_snippet_begins: "\<exists>rest. ga_snippet g = 10 # rest"
  by (simp add: ga_snippet_def asc_def)

lemma injected_ga_reference:
  "60 \<notin> set g \<Longrightarrow> 60 \<notin> set a \<Longrightarrow>
   occurrences ga_reference (ga_snippet g @ ad_snippet a @ rest)
     = 1 + occurrences ga_reference rest"
  by (simp add: ga_reference_def ga_snippet_def ad_snippet_def asc_def occurrences_skip)

lemma injected_ad_reference:
  "60 \<notin> set g \<Longrightarrow> 60 \<notin> set a \<Longrightarrow>
   occurrences ad_reference (ga_snippet g @ ad_snippet a @ rest)
     = 1 + occurrences ad_reference rest"
  by (simp add: ad_reference_def ga_snippet_def ad_snippet_def asc_def occurrences_skip)

lemma references_in_output:
  assumes "60 \<notin> set g" and "60 \<notin> set a"
  shows "occurrences ga_reference (before @ inner @ ga_snippet g @ ad_snippet a @ rest)
           = occurrences ga_reference (before @ inner) + 1 + occurrences ga_reference rest"
    and "occurrences ad_reference (before @ inner @ ga_snippet g @ ad_snippet a @ rest)
           = occurrences ad_reference (before @ inner) + 1 + occurrences ad_reference rest"
proof -
  obtain tl_g where g: "ga_snippet g = 10 # tl_g"
    using ga_snippet_begins by blast
  have n: "10 \<notin> set ga_reference" "ga_reference \<noteq> []"
    "10 \<notin> set ad_reference" "ad_reference \<noteq> []"
    by (simp_all add: ga_reference_def ad_reference_def asc_def)
  have "occurrences ga_reference ((before @ inner) @ 10 # tl_g @ ad_snippet a @ rest)
          = occurrences ga_reference (before @ inner)
            + occurrences ga_reference (10 # tl_g @ ad_snippet a @ rest)"
    using n(1,2) by (rule occurrences_before_foreign)
  then show "occurrences ga_reference (before @ inner @ ga_snippet g @ ad_snippet a @ rest)
           = occurrences ga_reference (before @ inner) + 1 + occurrences ga_reference rest"
    using injected_ga_reference [OF assms, of rest] by (simp add: g)
  have "occurrences ad_reference ((before @ inner) @ 10 # tl_g @ ad_snippet a @ rest)
          = occurrences ad_reference (before @ inner)
            + occurrences ad_reference (10 # tl_g @ ad_snippet a @ rest)"
    using n(3,4) by (rule occurrences_before_foreign)
  then show "occurrences ad_reference (before @ inner @ ga_snippet g @ ad_snippet a @ rest)
           = occurrences ad_reference (before @ inner) + 1 + occurrences ad_reference rest"
    using injected_ad_reference [OF assms, of rest] by (simp add: g)
qed

text \<open>
  C7, as the claim states it, fails twice, because the handler only appends. For a
  document whose \<open>head\<close> element holds an Analytics script reference of its own, the
  output holds two of them. And where the configured Analytics identifier is itself
  the beginning of such a reference, the output for the document of the scenario
  holds three: the injected one and one for each of the two places where the snippet
  prints the identifier.
\<close>

theorem output_with_more_references:
  "truthy_str (GA_MEASUREMENT_ID tagged_env) \<and> truthy_str (ADSENSE_CLIENT_ID tagged_env) \<and>
   occurrences ga_reference
     (transform tracked_head (HeadInjector_element tagged_env) tracked_document) = 2 \<and>
   truthy_str (GA_MEASUREMENT_ID reference_id_env) \<and>
   truthy_str (ADSENSE_CLIENT_ID reference_id_env) \<and>
   occurrences ga_reference
     (transform one_head (HeadInjector_element reference_id_env) example_document) = 3"
proof -
  have a: "truthy_str (GA_MEASUREMENT_ID tagged_env) \<and> truthy_str (ADSENSE_CLIENT_ID tagged_env)"
    by (simp add: tagged_env_def keyed_env_def empty_env_def truthy_str_def asc_def)
  have b: "truthy_str (GA_MEASUREMENT_ID reference_id_env) \<and>
           truthy_str (ADSENSE_CLIENT_ID reference_id_env)"
    by (simp add: reference_id_env_def tagged_env_def keyed_env_def empty_env_def
        truthy_str_def ga_reference_def asc_def)
  have c: "occurrences ga_reference
     (transform tracked_head (HeadInjector_element tagged_env) tracked_document) = 2"
    by (simp add: transform_def tracked_head_def HeadInjector_element_def tagged_env_def
        keyed_env_def empty_env_def truthy_str_def interpolate_def append_html_def
        ga_reference_def ga_snippet_def ad_snippet_def asc_def)
  have d: "occurrences ga_reference
     (transform one_head (HeadInjector_element reference_id_env) example_document) = 3"
    by (simp add: transform_def one_head_def HeadInjector_element_def reference_id_env_def
        tagged_env_def keyed_env_def empty_env_def truthy_str_def interpolate_def
        append_html_def ga_reference_def ga_snippet_def ad_snippet_def asc_def)
  show ?thesis using a b c d by blast
qed

text \<open>
  C7, amended. Where both identifiers are configured, the handler appends exactly two
  fragments to the \<open>head\<close> element it is given: first the Analytics snippet, then the
  AdSense snippet. For a document in which the rewriter finds one \<open>head\<close> element, both
  are written inside that element, directly before its end tag, in this order. Where
  no identifier contains the character \<open><\<close> (code unit 60), the injection adds exactly
  one Analytics script reference and exactly one AdSense script reference: the number
  of each in the output is the number in the text of the document before the place
  of the injection, plus one, plus the number in its text from the end tag on. So the
  output holds exactly one of each where the document holds none of its own.
\<close>

theorem injection_with_both_ids:
  assumes "GA_MEASUREMENT_ID env = Some g" and "g \<noteq> []"
    and "ADSENSE_CLIENT_ID env = Some a" and "a \<noteq> []"
    and "tok html = [Chunk before, Head_element inner end_tag, Chunk after]"
  shows "appended (HeadInjector_element env \<lparr>appended = []\<rparr>) = [ga_snippet g, ad_snippet a] \<and>
         transform tok (HeadInjector_element env) html
           = before @ inner @ ga_snippet g @ ad_snippet a @ end_tag @ after \<and>
         (60 \<notin> set g \<and> 60 \<notin> set a \<longrightarrow>
            occurrences ga_reference (transform tok (HeadInjector_element env) html)
              = occurrences ga_reference (before @ inner) + 1
                + occurrences ga_reference (end_tag @ after) \<and>
            occurrences ad_reference (transform tok (HeadInjector_element env) html)
              = occurrences ad_reference (before @ inner) + 1
                + occurrences ad_reference (end_tag @ after))"
proof -
  have a: "appended (HeadInjector_element env \<lparr>appended = []\<rparr>) = [ga_snippet g, ad_snippet a]"
    using assms(1-4)
    by (simp add: HeadInjector_element_def truthy_str_def interpolate_def append_html_def)
  then have b: "transform tok (HeadInjector_element env) html
           = before @ inner @ ga_snippet g @ ad_snippet a @ end_tag @ after"
    using assms(5) by (simp add: transform_def)
  show ?thesis
    using a b references_in_output [of g a before inner "end_tag @ after"] by simp
qed

theorem injection_with_both_ids_witness:
  \<open>GA_MEASUREMENT_ID tagged_env = Some (asc ''G-TEST'') \<and> asc ''G-TEST'' \<noteq> [] \<and>
   ADSENSE_CLIENT_ID tagged_env = Some (asc ''ca-pub-TEST'') \<and> asc ''ca-pub-TEST'' \<noteq> [] \<and>
   60 \<notin> set (asc ''G-TEST'') \<and> 60 \<notin> set (asc ''ca-pub-TEST'') \<and>
   appended (HeadInjector_element tagged_env \<lparr>appended = []\<rparr>)
     = [ga_snippet (asc ''G-TEST''), ad_snippet (asc ''ca-pub-TEST'')] \<and>
   transform one_head (HeadInjector_element tagged_env) example_document
     = asc ''<html>'' @ asc ''<head><meta charset="utf-8">'' @
       ga_snippet (asc ''G-TEST'') @ ad_snippet (asc ''ca-pub-TEST'') @
       asc ''</head>'' @ asc ''<body><a href="/">Home</a></body></html>'' \<and>
   occurrences ga_reference
     (transform one_head (HeadInjector_element tagged_env) example_document) = 1 \<and>
   occurrences ad_reference
     (transform one_head (HeadInjector_element tagged_env) example_document) = 1\<close>
proof -
  have h1: "GA_MEASUREMENT_ID tagged_env = Some (asc ''G-TEST'')"
    by (simp add: tagged_env_def keyed_env_def empty_env_def)
  have h2: "asc ''G-TEST'' \<noteq> []" by (simp add: asc_def)
  have h3: "ADSENSE_CLIENT_ID tagged_env = Some (asc ''ca-pub-TEST'')"
    by (simp add: tagged_env_def keyed_env_def empty_env_def)
  have h4: "asc ''ca-pub-TEST'' \<noteq> []" by (simp add: asc_def)
  have h5: \<open>one_head example_document =
      [Chunk (asc ''<html>''),
       Head_element (asc ''<head><meta charset="utf-8">'') (asc ''</head>''),
       Chunk (asc ''<body><a href="/">Home</a></body></html>'')]\<close>
    by (simp add: one_head_def)
  have h6: "60 \<notin> set (asc ''G-TEST'') \<and> 60 \<notin> set (asc ''ca-pub-TEST'')"
    by (simp add: asc_def)
  have z: \<open>occurrences ga_reference (asc ''<html>'' @ asc ''<head><meta charset="utf-8">'') = 0 \<and>
           occurrences ga_reference
             (asc ''</head>'' @ asc ''<body><a href="/">Home</a></body></html>'') = 0 \<and>
           occurrences ad_reference (asc ''<html>'' @ asc ''<head><meta charset="utf-8">'') = 0 \<and>
           occurrences ad_reference
             (asc ''</head>'' @ asc ''<body><a href="/">Home</a></body></html>'') = 0\<close>
    by (simp add: ga_reference_def ad_reference_def asc_def)
  note t = injection_with_both_ids [where tok = one_head and html = example_document,
      OF h1 h2 h3 h4 h5]
  note t1 = t [THEN conjunct1]
  note t2 = t [THEN conjunct2, THEN conjunct1]
  note c = t [THEN conjunct2, THEN conjunct2, THEN mp, OF h6]
  from c z have t3: "occurrences ga_reference
     (transform one_head (HeadInjector_element tagged_env) example_document) = 1"
    by simp
  from c z have t4: "occurrences ad_reference
     (transform one_head (HeadInjector_element tagged_env) example_document) = 1"
    by simp
  show ?thesis using h1 h2 h3 h4 h6 t1 t2 t3 t4 by blast
qed

end
